theory Spec2Isabelle
  imports Complex_Main "HOL-Library.Sublist"
begin

section \<open>Tags, relations and domains\<close>

text \<open>
  The driver \<^verbatim>\<open>infinigen_examples/generate_indoors.py\<close> builds its stage catalog
  from the tag vocabulary \<^verbatim>\<open>t\<close>, the constraint language \<^verbatim>\<open>cl\<close>, the domain
  algebra \<^verbatim>\<open>r\<close> and the constants of \<^verbatim>\<open>cu\<close> (constraint_util). A tag is
  named as the source names it: \<^verbatim>\<open>t.Semantics.Room\<close> is \<open>Semantics ''Room''\<close>,
  \<^verbatim>\<open>-t.Semantics.Object\<close> is \<open>Negated (Semantics ''Object'')\<close>.
\<close>

datatype tag =
    Semantics string
  | Subpart string
  | Variable string
  | Negated tag

datatype relation =
    AnyRelation
  | StableAgainst "tag set" "tag set"
  | NegatedRelation relation

datatype "domain" = Domain "tag set" "(relation \<times> domain) list"

text \<open>
  Modelled from the spec: the combinators of the domain algebra (module
  \<^verbatim>\<open>infinigen.core.constraints.reasoning\<close>). \<^verbatim>\<open>with_relation\<close> returns a new domain
  with one more relation clause, \<^verbatim>\<open>with_tags\<close> a new domain with additional required
  tags; neither changes its argument.
\<close>

fun with_relation :: "domain \<Rightarrow> relation \<Rightarrow> domain \<Rightarrow> domain" where
  "with_relation (Domain ts rs) r d = Domain ts (rs @ [(r, d)])"

fun with_tags :: "domain \<Rightarrow> tag set \<Rightarrow> domain" where
  "with_tags (Domain ts rs) new = Domain (ts \<union> new) rs"

text \<open>
  The constants of \<^verbatim>\<open>infinigen_examples.util.constraint_util\<close> that the catalog
  builder reads. Their values are not part of this file of the repository, so they are
  parameters of the model.
\<close>

record constraint_util =
  floortags :: "tag set"
  walltags :: "tag set"
  ceilingtags :: "tag set"
  side :: "tag set"
  ontop :: relation
  on :: relation
  variable_room :: tag
  variable_obj :: tag

subsection \<open>Python dictionaries with insertion order\<close>

type_synonym ('k, 'v) dict = "('k \<times> 'v) list"

fun dict_set :: "('k, 'v) dict \<Rightarrow> 'k \<Rightarrow> 'v \<Rightarrow> ('k, 'v) dict" where
  "dict_set [] k v = [(k, v)]"
| "dict_set ((k', v') # kvs) k v =
     (if k' = k then (k, v) # kvs else (k', v') # dict_set kvs k v)"

definition dict_keys :: "('k, 'v) dict \<Rightarrow> 'k list" where
  "dict_keys d = map fst d"

definition dict_get :: "('k, 'v) dict \<Rightarrow> 'k \<Rightarrow> 'v \<Rightarrow> 'v" where
  "dict_get d k dflt = (case map_of d k of None \<Rightarrow> dflt | Some v \<Rightarrow> v)"

subsection \<open>The stage catalog builder\<close>

definition all_room :: "domain" where
  "all_room = Domain {Semantics ''Room'', Negated (Semantics ''Object'')} []"

definition all_obj :: "domain" where
  "all_obj = Domain {Semantics ''Object'', Negated (Semantics ''Room'')} []"

definition all_obj_in_room :: "constraint_util \<Rightarrow> domain" where
  "all_obj_in_room cu =
     with_relation all_obj AnyRelation (with_tags all_room {variable_room cu})"

definition primary :: "constraint_util \<Rightarrow> domain" where
  "primary cu = with_relation (all_obj_in_room cu) (NegatedRelation AnyRelation) all_obj"

definition secondary :: "constraint_util \<Rightarrow> domain" where
  "secondary cu =
     with_relation all_obj AnyRelation (with_tags (primary cu) {variable_obj cu})"

definition nonside :: "constraint_util \<Rightarrow> domain" where
  "nonside cu =
     with_relation (secondary cu) (NegatedRelation (StableAgainst {} (side cu))) all_obj"

definition default_greedy_stages :: "constraint_util \<Rightarrow> (string, domain) dict" where
  "default_greedy_stages cu =
    (let on_floor = StableAgainst {} (floortags cu);
         on_wall = StableAgainst {} (walltags cu);
         on_ceiling = StableAgainst {} (ceilingtags cu);
         side_rel = StableAgainst {} (side cu);
         greedy_stages = [];
         greedy_stages = dict_set greedy_stages ''rooms'' all_room;
         greedy_stages = dict_set greedy_stages ''on_floor''
           (with_relation (primary cu) on_floor all_room);
         greedy_stages = dict_set greedy_stages ''on_wall''
           (with_relation
             (with_relation
               (with_relation (primary cu) (NegatedRelation on_floor) all_room)
               (NegatedRelation on_ceiling) all_room)
             on_wall all_room);
         greedy_stages = dict_set greedy_stages ''on_ceiling''
           (with_relation
             (with_relation
               (with_relation (primary cu) (NegatedRelation on_floor) all_room)
               on_ceiling all_room)
             (NegatedRelation on_wall) all_room);
         greedy_stages = dict_set greedy_stages ''side_obj''
           (with_relation (secondary cu) side_rel all_obj);
         greedy_stages = dict_set greedy_stages ''obj_ontop_obj''
           (with_relation
             (with_relation (nonside cu) (ontop cu) all_obj)
             (NegatedRelation (on cu)) all_obj);
         greedy_stages = dict_set greedy_stages ''obj_on_support''
           (with_relation
             (with_relation (nonside cu) (on cu) all_obj)
             (NegatedRelation (ontop cu)) all_obj)
     in greedy_stages)"

definition all_vars :: "constraint_util \<Rightarrow> tag list" where
  "all_vars cu = [variable_room cu, variable_obj cu]"

section \<open>Scene state and matching\<close>

text \<open>
  Modelled from the spec: the Scene State (module
  \<^verbatim>\<open>infinigen.core.constraints.example_solver.state_def\<close>) maps an entity key to an
  Object Spec: a geometry handle, a set of tags and the relations to other entities.
  Of the geometry handle the driver reads the name and whether
  \<^verbatim>\<open>obj.dimensions.length < 1.0\<close>.
\<close>

type_synonym key = string

record bpy_object =
  name :: string
  dimensions_length_lt_1 :: bool

record object_spec =
  obj :: bpy_object
  tags :: "tag set"
  relations :: "(relation \<times> key) list"

record state =
  objs :: "(key, object_spec) dict"

type_synonym assignment = "tag \<rightharpoonup> key"

text \<open>
  Modelled from the spec: matching an entity against a domain (the matching code is not
  part of this file). A required tag must be among the entity's tags, an excluded tag
  must not; a variable tag is met by the entity that the assignment binds to it. A
  relation clause \<open>(r, d)\<close> requires a relation of the entity that satisfies \<open>r\<close> to
  some entity matching \<open>d\<close>; a negated clause forbids it. \<^verbatim>\<open>AnyRelation\<close> is satisfied
  by every relation of the state, a stable-against predicate by a stable-against relation
  whose child and parent tags include the predicate's.
\<close>

fun has_tag :: "assignment \<Rightarrow> key \<Rightarrow> object_spec \<Rightarrow> tag \<Rightarrow> bool" where
  "has_tag asg k spec (Negated t) = (\<not> has_tag asg k spec t)"
| "has_tag asg k spec (Variable v) = (asg (Variable v) = Some k)"
| "has_tag asg k spec t = (t \<in> tags spec)"

fun polarity :: "relation \<Rightarrow> bool \<times> relation" where
  "polarity (NegatedRelation r) = (case polarity r of (pos, p) \<Rightarrow> (\<not> pos, p))"
| "polarity r = (True, r)"

fun satisfies :: "relation \<Rightarrow> relation \<Rightarrow> bool" where
  "satisfies inst AnyRelation = True"
| "satisfies (StableAgainst c p) (StableAgainst c' p') = (c' \<subseteq> c \<and> p' \<subseteq> p)"
| "satisfies inst p = False"

fun matches :: "state \<Rightarrow> assignment \<Rightarrow> domain \<Rightarrow> key \<Rightarrow> bool" where
  "matches st asg (Domain ts rs) k =
     (case map_of (objs st) k of
        None \<Rightarrow> False
      | Some spec \<Rightarrow>
          (\<forall>t\<in>ts. has_tag asg k spec t) \<and>
          (\<forall>c\<in>set rs.
             fst (polarity (fst c)) =
               (\<exists>i\<in>set (relations spec).
                  satisfies (fst i) (snd (polarity (fst c))) \<and> matches st asg (snd c) (snd i))))"

definition matching_stages ::
  "(string, domain) dict \<Rightarrow> state \<Rightarrow> assignment \<Rightarrow> key \<Rightarrow> string list" where
  "matching_stages stages st asg k = map fst (filter (\<lambda>nd. matches st asg (snd nd) k) stages)"

fun clauses :: "domain \<Rightarrow> (relation \<times> domain) list" where
  "clauses (Domain ts rs) = rs"

subsection \<open>The catalog as the specification words it\<close>

text \<open>
  The following predicates do not mention domains. They say in the words of the
  specification which entities a stage is meant to cover: rooms, primary objects
  (related to a room, related to no object) and secondary objects (related to a primary
  object that the object variable binds).
\<close>

definition entity_tagged :: "state \<Rightarrow> assignment \<Rightarrow> key \<Rightarrow> tag \<Rightarrow> bool" where
  "entity_tagged st asg k t =
     (case map_of (objs st) k of None \<Rightarrow> False | Some spec \<Rightarrow> has_tag asg k spec t)"

definition related_to :: "state \<Rightarrow> key \<Rightarrow> relation \<Rightarrow> (key \<Rightarrow> bool) \<Rightarrow> bool" where
  "related_to st k p T =
     (case map_of (objs st) k of
        None \<Rightarrow> False
      | Some spec \<Rightarrow> \<exists>i\<in>set (relations spec). satisfies (fst i) p \<and> T (snd i))"

definition clause_holds :: "state \<Rightarrow> key \<Rightarrow> relation \<Rightarrow> (key \<Rightarrow> bool) \<Rightarrow> bool" where
  "clause_holds st k r T = (fst (polarity r) = related_to st k (snd (polarity r)) T)"

definition room_entity :: "state \<Rightarrow> assignment \<Rightarrow> key \<Rightarrow> bool" where
  "room_entity st asg k =
     (entity_tagged st asg k (Semantics ''Room'') \<and> \<not> entity_tagged st asg k (Semantics ''Object''))"

definition object_entity :: "state \<Rightarrow> assignment \<Rightarrow> key \<Rightarrow> bool" where
  "object_entity st asg k =
     (entity_tagged st asg k (Semantics ''Object'') \<and> \<not> entity_tagged st asg k (Semantics ''Room''))"

definition primary_object :: "constraint_util \<Rightarrow> state \<Rightarrow> assignment \<Rightarrow> key \<Rightarrow> bool" where
  "primary_object cu st asg k =
     (object_entity st asg k
      \<and> related_to st k AnyRelation
           (\<lambda>k'. room_entity st asg k' \<and> entity_tagged st asg k' (variable_room cu))
      \<and> \<not> related_to st k AnyRelation (object_entity st asg))"

definition secondary_object :: "constraint_util \<Rightarrow> state \<Rightarrow> assignment \<Rightarrow> key \<Rightarrow> bool" where
  "secondary_object cu st asg k =
     (object_entity st asg k
      \<and> related_to st k AnyRelation
           (\<lambda>k'. primary_object cu st asg k' \<and> entity_tagged st asg k' (variable_obj cu)))"

subsection \<open>An example scene\<close>

text \<open>
  Two rooms, a table standing on the kitchen floor, a shelf on the kitchen wall and a cup
  on top of the table. The room variable is bound to the kitchen, the object variable to
  the table.
\<close>

definition example_cu :: constraint_util where
  "example_cu =
     \<lparr> floortags = {Subpart ''SupportSurface''},
       walltags = {Subpart ''Wall''},
       ceilingtags = {Subpart ''Ceiling''},
       side = {Subpart ''Side''},
       ontop = StableAgainst {Subpart ''Bottom''} {Subpart ''Top''},
       on = StableAgainst {Subpart ''Bottom''} {Subpart ''Interior''},
       variable_room = Variable ''room'',
       variable_obj = Variable ''obj'' \<rparr>"

definition example_state :: state where
  "example_state =
     \<lparr> objs =
        [(''bedroom_0'',
            \<lparr> obj = \<lparr> name = ''bedroom_0'', dimensions_length_lt_1 = False \<rparr>,
              tags = {Semantics ''Room'', Semantics ''Bedroom''},
              relations = [] \<rparr>),
         (''kitchen_0'',
            \<lparr> obj = \<lparr> name = ''kitchen_0'', dimensions_length_lt_1 = False \<rparr>,
              tags = {Semantics ''Room'', Semantics ''Kitchen''},
              relations = [] \<rparr>),
         (''table_0'',
            \<lparr> obj = \<lparr> name = ''table_0'', dimensions_length_lt_1 = False \<rparr>,
              tags = {Semantics ''Object'', Semantics ''Table''},
              relations =
                [(StableAgainst {Subpart ''Bottom''} {Subpart ''SupportSurface''}, ''kitchen_0'')] \<rparr>),
         (''shelf_0'',
            \<lparr> obj = \<lparr> name = ''shelf_0'', dimensions_length_lt_1 = False \<rparr>,
              tags = {Semantics ''Object''},
              relations =
                [(StableAgainst {Subpart ''Back''} {Subpart ''Wall''}, ''kitchen_0'')] \<rparr>),
         (''cup_0'',
            \<lparr> obj = \<lparr> name = ''cup_0'', dimensions_length_lt_1 = True \<rparr>,
              tags = {Semantics ''Object''},
              relations =
                [(StableAgainst {Subpart ''Bottom''} {Subpart ''Top''}, ''table_0'')] \<rparr>)] \<rparr>"

definition example_asg :: assignment where
  "example_asg = [Variable ''room'' \<mapsto> ''kitchen_0'', Variable ''obj'' \<mapsto> ''table_0'']"

section \<open>The composition driver\<close>

subsection \<open>Runs: a log of actions and a result or an exception\<close>

text \<open>
  \<^verbatim>\<open>compose_indoors\<close> calls collaborators that are not part of this file (the solver,
  the stage executor, the geometry backend, NumPy). What they answer is an input of the
  model, collected in the record \<open>world\<close>; what the driver does with the answers is
  translated from the source. Every call is logged as an action that carries the source
  line of the call, and every exception ends the run, since the driver has no handler.
\<close>

datatype pyval = PyNone | PyBool bool | PyInt int | PyFloat rat | PyStr string

fun truthy :: "pyval \<Rightarrow> bool" where
  "truthy PyNone = False"
| "truthy (PyBool b) = b"
| "truthy (PyInt i) = (i \<noteq> 0)"
| "truthy (PyFloat x) = (x \<noteq> 0)"
| "truthy (PyStr s) = (s \<noteq> [])"

datatype py_error =
    KeyError string
  | NameError string
  | AttributeError string
  | TypeError string
  | ConfigurationError
  | UnsatisfiedError string nat
  | ExternalError nat string

datatype outcome = RAN | SKIPPED_CHANCE | SKIPPED_PREREQ | FAILED

datatype action =
    Call nat string
  | CheckAll nat "(string, domain) dict" "tag list"
  | NpRandomChoice nat "tag list" tag
  | SolveObjects nat string nat pyval bool
  | ToJson nat string
  | Stage nat string outcome "action list"

datatype solve_result = Placed | NoFeasiblePlacement | Crash

record world =
  constants :: constraint_util
  raises :: "nat \<Rightarrow> string \<Rightarrow> bool"
  chance :: "int \<Rightarrow> string \<Rightarrow> bool"
  np_draw :: nat
  restricted :: "(string, domain) dict \<Rightarrow> (string, domain) dict"
  greedy_restricted :: "(string, domain) dict \<Rightarrow> tag \<Rightarrow> (string, domain) dict"
  solver_state :: "string \<Rightarrow> state"
  n_assignments :: "string \<Rightarrow> nat"
  placement :: "string \<Rightarrow> nat \<Rightarrow> solve_result"
  inview :: "nat \<Rightarrow> bool"
  backdrop_height :: int

text \<open>
  The fields of \<open>world\<close>: \<open>constants\<close> are the constants of constraint_util;
  \<open>raises l f\<close> says that the collaborator \<open>f\<close> called at line \<open>l\<close> raises;
  \<open>chance seed name\<close> is the draw of the stage-local generator derived from the scene
  seed and the stage name; \<open>np_draw\<close> is what NumPy's process-wide generator yields at
  line 164, a function of the state that generator is in when the line is reached;
  \<open>restricted\<close> and \<open>greedy_restricted\<close> are the catalogs that \<^verbatim>\<open>restrict_solving\<close>
  and \<^verbatim>\<open>apply_greedy_restriction\<close> leave; \<open>solver_state name\<close> is the solver's scene
  state at the end of the stage \<open>name\<close>; \<open>n_assignments key\<close> is the number of
  assignments that \<^verbatim>\<open>greedy.iterate_assignments\<close> enumerates for the catalog stage
  \<open>key\<close>; \<open>placement key i\<close> is what the solver finds for its \<open>i\<close>-th assignment;
  \<open>inview i\<close> says that all bounding-box points are in view at the \<open>i\<close>-th camera
  distance; \<open>backdrop_height\<close> is the result of \<^verbatim>\<open>create_outdoor_backdrop\<close>.
\<close>

type_synonym 'a prog = "action list \<Rightarrow> action list \<times> (py_error + 'a)"

text \<open>
  A program reads the log written so far and returns the actions it adds, with its
  result or the exception it raises.
\<close>

definition ret :: "'a \<Rightarrow> 'a prog" where
  "ret x = (\<lambda>hist. ([], Inr x))"

definition raise :: "py_error \<Rightarrow> 'a prog" where
  "raise e = (\<lambda>hist. ([], Inl e))"

definition bind :: "'a prog \<Rightarrow> ('a \<Rightarrow> 'b prog) \<Rightarrow> 'b prog" where
  "bind m f =
     (\<lambda>hist. case m hist of
        (es, Inl e) \<Rightarrow> (es, Inl e)
      | (es, Inr x) \<Rightarrow> (case f x (hist @ es) of (es', r) \<Rightarrow> (es @ es', r)))"

definition call :: "world \<Rightarrow> nat \<Rightarrow> string \<Rightarrow> unit prog" where
  "call w l f = (\<lambda>hist. ([Call l f], if raises w l f then Inl (ExternalError l f) else Inr ()))"

definition emit :: "action \<Rightarrow> unit prog" where
  "emit a = (\<lambda>hist. ([a], Inr ()))"

fun for_each :: "nat list \<Rightarrow> (nat \<Rightarrow> unit prog) \<Rightarrow> unit prog" where
  "for_each [] body = ret ()"
| "for_each (i # is) body = bind (body i) (\<lambda>_. for_each is body)"

definition dict_subscript :: "(string, 'v) dict \<Rightarrow> string \<Rightarrow> 'v prog" where
  "dict_subscript d k = (case map_of d k of None \<Rightarrow> raise (KeyError k) | Some v \<Rightarrow> ret v)"

definition run :: "'a prog \<Rightarrow> action list \<times> (py_error + 'a)" where
  "run m = m []"

definition trace :: "'a prog \<Rightarrow> action list" where
  "trace m = fst (run m)"

definition result :: "'a prog \<Rightarrow> py_error + 'a" where
  "result m = snd (run m)"

subsection \<open>The collaborators\<close>

text \<open>
  Modelled from the spec: the stage executor \<^verbatim>\<open>pipeline.RandomStageExecutor\<close>.
  \<^verbatim>\<open>run_stage\<close> returns the default when the prerequisite stage did not run or when
  the stage-local draw, made only with \<^verbatim>\<open>use_chance\<close>, does not select the stage;
  otherwise it calls the function. A failure of the function is recorded against the
  stage and goes on to the caller, who alone could replace it by the default;
  \<^verbatim>\<open>compose_indoors\<close> never does, so the outcome of such a stage is \<open>FAILED\<close>.
\<close>

record executor =
  scene_seed_of :: int
  output_folder_of :: string
  params_of :: "(string, pyval) dict"

fun ran_stage :: "string \<Rightarrow> action \<Rightarrow> bool" where
  "ran_stage n (Stage l n' out body) = (n' = n \<and> out = RAN)"
| "ran_stage n a = False"

definition run_stage ::
  "world \<Rightarrow> executor \<Rightarrow> nat \<Rightarrow> string \<Rightarrow> 'a prog \<Rightarrow> bool \<Rightarrow> 'a \<Rightarrow> string option \<Rightarrow> 'a prog" where
  "run_stage w p l stage_name fn use_chance dflt prereq =
     (\<lambda>hist.
        if (case prereq of None \<Rightarrow> False | Some q \<Rightarrow> \<not> list_ex (ran_stage q) hist)
        then ([Stage l stage_name SKIPPED_PREREQ []], Inr dflt)
        else if use_chance \<and> \<not> chance w (scene_seed_of p) stage_name
        then ([Stage l stage_name SKIPPED_CHANCE []], Inr dflt)
        else (case fn [] of
                (body, Inl e) \<Rightarrow> ([Stage l stage_name FAILED body], Inl e)
              | (body, Inr x) \<Rightarrow> ([Stage l stage_name RAN body], Inr x)))"

text \<open>
  Modelled from the spec: \<^verbatim>\<open>checks.check_all\<close> reports a broken catalog as a
  configuration error, and \<^verbatim>\<open>solver.solve_objects\<close>, whose \<^verbatim>\<open>abort_unsatisfied\<close>
  defaults to \<^verbatim>\<open>False\<close>, fails with an Unsatisfied error when the flag is set and no
  feasible placement is found; without the flag it commits the best effort.
\<close>

definition check_all :: "world \<Rightarrow> nat \<Rightarrow> (string, domain) dict \<Rightarrow> tag list \<Rightarrow> unit prog" where
  "check_all w l stages vars =
     (\<lambda>hist. ([CheckAll l stages vars],
             if raises w l ''checks.check_all'' then Inl ConfigurationError else Inr ()))"

definition solve_objects :: "world \<Rightarrow> nat \<Rightarrow> string \<Rightarrow> nat \<Rightarrow> pyval \<Rightarrow> bool \<Rightarrow> unit prog" where
  "solve_objects w l stage_key i n_steps abort_unsatisfied =
     (\<lambda>hist. ([SolveObjects l stage_key i n_steps abort_unsatisfied],
             case placement w stage_key i of
               Crash \<Rightarrow> Inl (ExternalError l ''solver.solve_objects'')
             | NoFeasiblePlacement \<Rightarrow>
                 if abort_unsatisfied then Inl (UnsatisfiedError stage_key i) else Inr ()
             | Placed \<Rightarrow> Inr ()))"

definition np_random_choice :: "world \<Rightarrow> nat \<Rightarrow> tag list \<Rightarrow> tag prog" where
  "np_random_choice w l xs =
     (if xs = [] then bind (call w l ''np.random.choice'') (\<lambda>_. raise (ExternalError l ''np.random.choice''))
      else (\<lambda>hist. ([NpRandomChoice l xs (xs ! (np_draw w mod length xs))],
                   Inr (xs ! (np_draw w mod length xs)))))"

definition to_json :: "world \<Rightarrow> nat \<Rightarrow> state option \<Rightarrow> string \<Rightarrow> unit prog" where
  "to_json w l st path =
     (case st of
        None \<Rightarrow> raise (AttributeError ''to_json'')
      | Some s \<Rightarrow>
          (\<lambda>hist. ([ToJson l path],
                  if raises w l ''state.to_json'' then Inl (ExternalError l ''state.to_json'')
                  else Inr ())))"

text \<open>Modelled from the spec: the parents of an entity are the targets of its relations.\<close>

definition get_parents :: "state \<Rightarrow> bpy_object \<Rightarrow> object_spec list" where
  "get_parents st ob =
     concat (map (\<lambda>(k, spec).
        if obj spec = ob
        then concat (map (\<lambda>(r, k'). case map_of (objs st) k' of None \<Rightarrow> [] | Some parent \<Rightarrow> [parent])
                         (relations spec))
        else []) (objs st))"

definition state_objs :: "state option \<Rightarrow> (key, object_spec) dict prog" where
  "state_objs st = (case st of None \<Rightarrow> raise (AttributeError ''objs'') | Some s \<Rightarrow> ret (objs s))"

subsection \<open>The functions defined inside \<^verbatim>\<open>compose_indoors\<close>\<close>

text \<open>Lines 142 to 151.\<close>

definition add_coarse_terrain :: "world \<Rightarrow> unit option prog" where
  "add_coarse_terrain w =
     bind (call w 143 ''Terrain'') (\<lambda>terrain.
     bind (call w 149 ''terrain.coarse_terrain'') (\<lambda>terrain_mesh.
     ret (Some ())))"

text \<open>Lines 181 and 182.\<close>

definition solve_rooms :: "world \<Rightarrow> (string, domain) dict \<Rightarrow> state option prog" where
  "solve_rooms w stages =
     bind (dict_subscript stages ''rooms'') (\<lambda>rooms.
     bind (call w 182 ''solver.solve_rooms'') (\<lambda>_.
     ret (Some (solver_state w ''solve_rooms''))))"

text \<open>
  Lines 185 to 198. The step count is subscripted inside the loop, as an argument of
  each \<^verbatim>\<open>solve_objects\<close> call, and the abort flag is read with a default.
\<close>

definition solve_large ::
  "world \<Rightarrow> (string, pyval) dict \<Rightarrow> (string, domain) dict \<Rightarrow> state option prog" where
  "solve_large w overrides stages =
     bind (dict_subscript stages ''on_floor'') (\<lambda>on_floor.
     bind (call w 186 ''greedy.iterate_assignments'') (\<lambda>assignments.
     bind (for_each [0..<n_assignments w ''on_floor''] (\<lambda>i.
             bind (dict_subscript stages ''on_floor'') (\<lambda>on_floor.
             bind (dict_subscript overrides ''solve_steps_large'') (\<lambda>n_steps.
             solve_objects w 190 ''on_floor'' i n_steps
               (truthy (dict_get overrides ''abort_unsatisfied_large'' (PyBool False))))))) (\<lambda>_.
     ret (Some (solver_state w ''solve_large'')))))"

text \<open>
  One \<^verbatim>\<open>for\<close> statement of \<^verbatim>\<open>solve_medium\<close> and \<^verbatim>\<open>solve_small\<close>: the assignments
  of a catalog stage are enumerated and each is solved with the step count read before.
  These calls do not pass \<^verbatim>\<open>abort_unsatisfied\<close>, which therefore has its default.
\<close>

definition solve_stage ::
  "world \<Rightarrow> (string, domain) dict \<Rightarrow> string \<Rightarrow> nat \<Rightarrow> pyval \<Rightarrow> unit prog" where
  "solve_stage w stages stage_key l n_steps =
     bind (dict_subscript stages stage_key) (\<lambda>dom.
     bind (call w l ''greedy.iterate_assignments'') (\<lambda>assignments.
     for_each [0..<n_assignments w stage_key] (\<lambda>i.
       bind (dict_subscript stages stage_key) (\<lambda>dom.
       solve_objects w (Suc l) stage_key i n_steps False))))"

text \<open>Lines 326 to 334.\<close>

definition solve_medium ::
  "world \<Rightarrow> (string, pyval) dict \<Rightarrow> (string, domain) dict \<Rightarrow> state option prog" where
  "solve_medium w overrides stages =
     bind (dict_subscript overrides ''solve_steps_medium'') (\<lambda>n_steps.
     bind (solve_stage w stages ''on_wall'' 328 n_steps) (\<lambda>_.
     bind (solve_stage w stages ''on_ceiling'' 330 n_steps) (\<lambda>_.
     bind (solve_stage w stages ''side_obj'' 332 n_steps) (\<lambda>_.
     ret (Some (solver_state w ''solve_medium''))))))"

text \<open>Lines 337 to 345.\<close>

definition solve_small ::
  "world \<Rightarrow> (string, pyval) dict \<Rightarrow> (string, domain) dict \<Rightarrow> state option prog" where
  "solve_small w overrides stages =
     bind (dict_subscript overrides ''solve_steps_small'') (\<lambda>n_steps.
     bind (solve_stage w stages ''obj_ontop_obj'' 339 n_steps) (\<lambda>_.
     bind (solve_stage w stages ''obj_on_support'' 341 n_steps) (\<lambda>_.
     ret (Some (solver_state w ''solve_small'')))))"

text \<open>
  Lines 213 to 238. The module never imports \<^verbatim>\<open>random\<close>, so the name is unbound
  when line 220 is reached, and the lines after it cannot run.
\<close>

definition add_bottle_to_scene :: "state option \<Rightarrow> bpy_object option prog" where
  "add_bottle_to_scene st =
     bind (state_objs st) (\<lambda>os.
     (let surfaces =
            filter (\<lambda>spec. Semantics ''Table'' \<in> tags spec \<or> Semantics ''Surface'' \<in> tags spec)
              (map snd os)
      in if surfaces = [] then ret None
         else raise (NameError ''random'')))"

text \<open>Lines 244 to 266.\<close>

definition pose_cameras :: "world \<Rightarrow> state option \<Rightarrow> bpy_object list option prog" where
  "pose_cameras w st =
     bind (state_objs st) (\<lambda>os.
     (let nonroom_objs =
            map obj (filter (\<lambda>spec. Semantics ''Room'' \<notin> tags spec) (map snd os))
      in bind (call w 250 ''placement.camera.camera_selection_preprocessing'') (\<lambda>scene_preprocessed.
         bind (call w 255 ''butil.join_objects'') (\<lambda>solved_floor_surface.
         bind (call w 260 ''placement.camera.configure_cameras'') (\<lambda>_.
         ret (Some nonroom_objs))))))"

text \<open>
  Lines 270 to 282, the choice of the object that the cameras follow. The fallback
  reaches the unbound name \<^verbatim>\<open>random\<close> when it has a candidate.
\<close>

definition select_object_to_follow ::
  "state option \<Rightarrow> bool \<Rightarrow> bpy_object option \<Rightarrow> bpy_object list \<Rightarrow> bpy_object option prog" where
  "select_object_to_follow st focus_on_bottle bottle nonroom_objs =
     (if focus_on_bottle \<and> bottle \<noteq> None then ret bottle
      else
        bind (case st of
                Some s \<Rightarrow>
                  ret (filter (\<lambda>ob. dimensions_length_lt_1 ob \<and>
                                 list_ex (\<lambda>parent. Subpart ''SupportSurface'' \<in> tags parent)
                                   (get_parents s ob)) nonroom_objs)
              | None \<Rightarrow>
                  if list_ex dimensions_length_lt_1 nonroom_objs
                  then raise (AttributeError ''get_parents'')
                  else ret []) (\<lambda>small_objects.
        (let small_objects =
               (if small_objects = [] then filter dimensions_length_lt_1 nonroom_objs
                else small_objects)
         in if small_objects \<noteq> [] then raise (NameError ''random'') else ret None)))"

text \<open>Lines 284 to 291.\<close>

definition animate_cameras :: "world \<Rightarrow> bpy_object option \<Rightarrow> unit prog" where
  "animate_cameras w object_to_follow = call w 285 ''cam_util.animate_cameras''"

text \<open>Lines 373 to 377.\<close>

definition turn_off_lights :: "world \<Rightarrow> unit prog" where
  "turn_off_lights w = call w 377 ''butil.delete''"

text \<open>Lines 380 to 384.\<close>

definition invisible_room_ceilings :: "world \<Rightarrow> unit prog" where
  "invisible_room_ceilings w =
     bind (call w 383 ''invisible_to_camera.apply'') (\<lambda>_.
     call w 384 ''invisible_to_camera.apply'')"

text \<open>
  Lines 437 to 447, the search for a camera distance. It is written after line 432 and
  is part of the model although line 432 always raises.
\<close>

fun topview_search :: "world \<Rightarrow> nat list \<Rightarrow> unit prog" where
  "topview_search w [] = ret ()"
| "topview_search w (i # is) =
     bind (call w 440 ''bpy.context.view_layer.update'') (\<lambda>_.
     bind (call w 441 ''points_inview'') (\<lambda>_.
     if inview w i then raise (AttributeError ''bpy.contexScreen'')
     else topview_search w is))"

subsection \<open>\<^verbatim>\<open>compose_indoors\<close>\<close>

text \<open>
  The body of \<^verbatim>\<open>compose_indoors\<close> is translated block by block, in the order of the
  source; each block is named after what its lines do and carries their numbers.
  Attribute reads and subscripts on what a collaborator returned belong to the
  collaborator's call; logging is left out.
\<close>

text \<open>Lines 153 and 154.\<close>

definition setup_scene :: "world \<Rightarrow> executor \<Rightarrow> unit option prog" where
  "setup_scene w p =
     bind (run_stage w p 153 ''terrain'' (add_coarse_terrain w) False None None) (\<lambda>terrain.
     bind (run_stage w p 154 ''sky_lighting''
             (call w 154 ''lighting.sky_lighting.add_lighting'') False () None) (\<lambda>_.
     ret terrain))"

text \<open>
  Lines 156 to 160. The catalog builder is the function \<open>default_greedy_stages\<close>
  above, which has no failing step; its call is logged.
\<close>

definition build_catalog :: "world \<Rightarrow> (string, domain) dict prog" where
  "build_catalog w =
     bind (call w 156 ''home_constraints'') (\<lambda>consgraph.
     bind (emit (Call 157 ''default_greedy_stages'')) (\<lambda>_.
     (let stages = default_greedy_stages (constants w)
      in bind (check_all w 158 stages (all_vars (constants w))) (\<lambda>_.
         bind (call w 160 ''restrict_solving'') (\<lambda>_.
         ret (restricted w stages))))))"

text \<open>Lines 162 to 178.\<close>

definition room_types :: "tag list" where
  "room_types =
     [Semantics ''Bedroom'', Semantics ''LivingRoom'', Semantics ''Kitchen'',
      Semantics ''Bathroom'', Semantics ''DiningRoom'']"

definition restrict_roomtype ::
  "world \<Rightarrow> (string, pyval) dict \<Rightarrow> (string, domain) dict \<Rightarrow> (string, domain) dict prog" where
  "restrict_roomtype w overrides stages =
     (if truthy (dict_get overrides ''restrict_single_supported_roomtype'' (PyBool False))
      then bind (np_random_choice w 164 room_types) (\<lambda>room.
           bind (call w 178 ''apply_greedy_restriction'') (\<lambda>_.
           ret (greedy_restricted w stages room)))
      else ret stages)"

text \<open>Lines 180 to 211.\<close>

definition solve_rooms_and_large ::
  "world \<Rightarrow> executor \<Rightarrow> (string, pyval) dict \<Rightarrow> (string, domain) dict \<Rightarrow> state option prog" where
  "solve_rooms_and_large w p overrides stages =
     bind (call w 180 ''Solver'') (\<lambda>solver.
     bind (run_stage w p 183 ''solve_rooms'' (solve_rooms w stages) False None None) (\<lambda>st.
     bind (run_stage w p 199 ''solve_large'' (solve_large w overrides stages) False st None) (\<lambda>st.
     bind (call w 203 ''greedy.iterate_assignments'') (\<lambda>solved_rooms.
     bind (call w 207 ''np.concatenate'') (\<lambda>solved_bound_points.
     bind (call w 208 ''np.min'') (\<lambda>solved_bbox.
     bind (call w 210 ''solver.get_bpy_objects'') (\<lambda>house_bbox.
     bind (call w 211 ''np.min'') (\<lambda>house_bbox.
     ret st))))))))"

text \<open>Lines 213 to 292.\<close>

definition unpack_posed :: "bpy_object list option \<Rightarrow> bpy_object list prog" where
  "unpack_posed posed =
     (case posed of None \<Rightarrow> raise (TypeError ''cannot unpack'') | Some nonroom_objs \<Rightarrow> ret nonroom_objs)"

definition place_bottle_and_cameras ::
  "world \<Rightarrow> executor \<Rightarrow> bool \<Rightarrow> state option \<Rightarrow> bpy_object option prog" where
  "place_bottle_and_cameras w p focus_on_bottle st =
     bind (run_stage w p 240 ''add_bottle'' (add_bottle_to_scene st) False None None) (\<lambda>bottle.
     bind (call w 242 ''placement.camera.spawn_camera_rigs'') (\<lambda>camera_rigs.
     bind (run_stage w p 268 ''pose_cameras'' (pose_cameras w st) False None None) (\<lambda>posed.
     bind (unpack_posed posed) (\<lambda>nonroom_objs.
     bind (select_object_to_follow st focus_on_bottle bottle nonroom_objs) (\<lambda>object_to_follow.
     bind (run_stage w p 292 ''animate_cameras''
             (animate_cameras w object_to_follow) False () (Some ''pose_cameras'')) (\<lambda>_.
     ret bottle))))))"

text \<open>Lines 294 to 324.\<close>

text \<open>
  \<^verbatim>\<open>set_visibility_mode\<close> (lines 294 to 299) sets the hide flags of the bottle and of
  the mesh objects of the scene; the model keeps its call.
\<close>

definition set_visibility_mode :: "world \<Rightarrow> nat \<Rightarrow> bpy_object option \<Rightarrow> string \<Rightarrow> unit prog" where
  "set_visibility_mode w l bottle mode = call w l ''set_visibility_mode''"

definition visibility_and_placeholders :: "world \<Rightarrow> executor \<Rightarrow> bpy_object option \<Rightarrow> unit prog" where
  "visibility_and_placeholders w p bottle =
     bind (call w 302 ''bpy.props.EnumProperty'') (\<lambda>_.
     bind (set_visibility_mode w 315 bottle ''FULL'') (\<lambda>_.
     run_stage w p 317 ''populate_intermediate_pholders''
       (call w 319 ''populate.populate_state_placeholders'') False () None))"

text \<open>Lines 326 to 348.\<close>

definition solve_medium_and_small ::
  "world \<Rightarrow> executor \<Rightarrow> (string, pyval) dict \<Rightarrow> (string, domain) dict \<Rightarrow> state option
     \<Rightarrow> state option prog" where
  "solve_medium_and_small w p overrides stages st =
     bind (run_stage w p 335 ''solve_medium'' (solve_medium w overrides stages) False st None) (\<lambda>st.
     bind (run_stage w p 346 ''solve_small'' (solve_small w overrides stages) False st None) (\<lambda>st.
     bind (run_stage w p 348 ''populate_assets''
             (call w 348 ''populate.populate_state_placeholders'') False () None) (\<lambda>_.
     ret st)))"

text \<open>Lines 350 to 366.\<close>

definition decorate_rooms :: "world \<Rightarrow> executor \<Rightarrow> (string, domain) dict \<Rightarrow> unit prog" where
  "decorate_rooms w p stages =
     bind (dict_subscript stages ''rooms'') (\<lambda>door_filter.
     bind (dict_subscript stages ''rooms'') (\<lambda>window_filter.
     bind (run_stage w p 352 ''room_doors''
             (bind (call w 352 ''solver.get_bpy_objects'') (\<lambda>_.
              call w 352 ''room_dec.populate_doors'')) False () None) (\<lambda>_.
     bind (run_stage w p 353 ''room_windows''
             (bind (call w 353 ''solver.get_bpy_objects'') (\<lambda>_.
              call w 353 ''room_dec.populate_windows'')) False () None) (\<lambda>_.
     bind (call w 355 ''solver.get_bpy_objects'') (\<lambda>room_meshes.
     bind (run_stage w p 356 ''room_stairs'' (call w 356 ''room_dec.room_stairs'') False () None) (\<lambda>_.
     bind (run_stage w p 357 ''skirting_floor'' (call w 357 ''make_skirting_board'') True () None) (\<lambda>_.
     bind (run_stage w p 358 ''skirting_ceiling'' (call w 358 ''make_skirting_board'') True () None) (\<lambda>_.
     bind (call w 360 ''butil.get_collection'') (\<lambda>rooms_meshed.
     bind (call w 361 ''room_dec.split_rooms'') (\<lambda>rooms_split.
     bind (run_stage w p 363 ''room_walls'' (call w 363 ''room_dec.room_walls'') False () None) (\<lambda>_.
     bind (run_stage w p 364 ''room_pillars'' (call w 364 ''room_dec.room_pillars'') False () None) (\<lambda>_.
     bind (run_stage w p 365 ''room_floors'' (call w 365 ''room_dec.room_floors'') False () None) (\<lambda>_.
     run_stage w p 366 ''room_ceilings'' (call w 366 ''room_dec.room_ceilings'') False () None)))))))))))))"

text \<open>Lines 371 to 415.\<close>

definition final_views :: "world \<Rightarrow> executor \<Rightarrow> int prog" where
  "final_views w p =
     bind (call w 371 ''cam_util.get_camera'') (\<lambda>cam.
     bind (run_stage w p 378 ''lights_off'' (turn_off_lights w) True () None) (\<lambda>_.
     bind (run_stage w p 385 ''invisible_room_ceilings''
             (invisible_room_ceilings w) False () None) (\<lambda>_.
     bind (run_stage w p 387 ''overhead_cam'' (call w 389 ''place_cam_overhead'') False () None) (\<lambda>_.
     bind (run_stage w p 395 ''hide_other_rooms'' (call w 397 ''hide_other_rooms'') False () None) (\<lambda>_.
     run_stage w p 404 ''nature_backdrop''
       (bind (call w 406 ''create_outdoor_backdrop'') (\<lambda>_. ret (backdrop_height w)))
       False 0 (Some ''terrain''))))))"

text \<open>Lines 417 to 447.\<close>

definition topview :: "world \<Rightarrow> (string, pyval) dict \<Rightarrow> unit prog" where
  "topview w overrides =
     (if truthy (dict_get overrides ''topview'' (PyBool False))
      then
        (let alpha = dict_get overrides ''alpha_walls'' (PyFloat 1)
         in bind (call w 422 ''rooms_split[group].objects'') (\<lambda>_.
            bind (call w 428 ''read_co'') (\<lambda>bbox.
            bind (raise (AttributeError ''bpy.contexScene'') :: unit prog) (\<lambda>_.
            (let rot_x = dict_get overrides ''topview_rot_x'' (PyInt 0);
                 rot_z = dict_get overrides ''topview_rot_z'' (PyInt 0)
             in topview_search w [0..<500])))))
      else ret ())"

record compose_result =
  height_offset :: int

text \<open>Lines 137 to 452. The parameter \<open>add_bottle\<close> is declared and not read.\<close>

definition compose_indoors ::
  "world \<Rightarrow> string \<Rightarrow> int \<Rightarrow> bool \<Rightarrow> bool \<Rightarrow> (string, pyval) dict \<Rightarrow> compose_result prog" where
  "compose_indoors w output_folder scene_seed add_bottle focus_on_bottle overrides =
     bind (call w 138 ''pipeline.RandomStageExecutor'') (\<lambda>_.
     (let p = \<lparr> scene_seed_of = scene_seed, output_folder_of = output_folder,
                params_of = overrides \<rparr>
      in bind (setup_scene w p) (\<lambda>terrain.
         bind (build_catalog w) (\<lambda>stages.
         bind (restrict_roomtype w overrides stages) (\<lambda>stages.
         bind (solve_rooms_and_large w p overrides stages) (\<lambda>st.
         bind (place_bottle_and_cameras w p focus_on_bottle st) (\<lambda>bottle.
         bind (visibility_and_placeholders w p bottle) (\<lambda>_.
         bind (solve_medium_and_small w p overrides stages st) (\<lambda>st.
         bind (decorate_rooms w p stages) (\<lambda>_.
         bind (to_json w 369 st (output_folder @ ''/solve_state.json'')) (\<lambda>_.
         bind (final_views w p) (\<lambda>height.
         bind (topview w overrides) (\<lambda>_.
         ret \<lparr> height_offset = height \<rparr>)))))))))))))"

section \<open>Reading a run\<close>

text \<open>
  The outline of an action is the source line of the call and the name of what is
  called: the collaborator, or the stage for a \<^verbatim>\<open>run_stage\<close> call. The plan lists the
  outlines of the statements of \<^verbatim>\<open>compose_indoors\<close> in the order of the source.
\<close>

fun outline :: "action \<Rightarrow> nat \<times> string" where
  "outline (Call l f) = (l, f)"
| "outline (CheckAll l stages vars) = (l, ''checks.check_all'')"
| "outline (NpRandomChoice l xs x) = (l, ''np.random.choice'')"
| "outline (SolveObjects l k i n ab) = (l, ''solver.solve_objects'')"
| "outline (ToJson l path) = (l, ''state.to_json'')"
| "outline (Stage l n out body) = (l, n)"

fun stage_view :: "action \<Rightarrow> string list" where
  "stage_view (Stage l n out body) = [n]"
| "stage_view a = []"

definition stage_names :: "action list \<Rightarrow> string list" where
  "stage_names es = concat (map stage_view es)"

fun flat :: "action \<Rightarrow> action list" where
  "flat (Stage l n out body) = Stage l n out body # concat (map flat body)"
| "flat a = [a]"

definition all_actions :: "action list \<Rightarrow> action list" where
  "all_actions es = concat (map flat es)"

fun is_check_all :: "action \<Rightarrow> bool" where
  "is_check_all (CheckAll l stages vars) = True"
| "is_check_all a = False"

fun is_to_json :: "action \<Rightarrow> bool" where
  "is_to_json (ToJson l path) = True"
| "is_to_json a = False"

fun is_solving :: "action \<Rightarrow> bool" where
  "is_solving (Call l f) = (f = ''Solver'')"
| "is_solving (Stage l n out body) =
     (n \<in> {''solve_rooms'', ''solve_large'', ''solve_medium'', ''solve_small''})"
| "is_solving a = False"

fun choice_view :: "action \<Rightarrow> tag list" where
  "choice_view (NpRandomChoice l xs x) = [x]"
| "choice_view a = []"

definition chosen_room_types :: "action list \<Rightarrow> tag list" where
  "chosen_room_types es = concat (map choice_view es)"

fun calls :: "string \<Rightarrow> action \<Rightarrow> bool" where
  "calls f a = (snd (outline a) = f)"

fun is_solve_objects :: "action \<Rightarrow> bool" where
  "is_solve_objects (SolveObjects l k i n ab) = True"
| "is_solve_objects a = False"

fun abort_policy :: "(string, pyval) dict \<Rightarrow> action \<Rightarrow> bool" where
  "abort_policy overrides (SolveObjects l k i n ab) =
     (ab = (k = ''on_floor''
            \<and> truthy (dict_get overrides ''abort_unsatisfied_large'' (PyBool False))))"
| "abort_policy overrides a = True"

definition flag_keys :: "string list" where
  "flag_keys =
     [''abort_unsatisfied_large'', ''restrict_single_supported_roomtype'', ''topview'',
      ''alpha_walls'', ''topview_rot_x'', ''topview_rot_z'']"

definition plan_before_check :: "(nat \<times> string) list" where
  "plan_before_check =
     [(138, ''pipeline.RandomStageExecutor''), (153, ''terrain''), (154, ''sky_lighting''),
      (156, ''home_constraints''), (157, ''default_greedy_stages'')]"

definition plan_solving :: "(string, pyval) dict \<Rightarrow> (nat \<times> string) list" where
  "plan_solving overrides =
     [(160, ''restrict_solving'')]
     @ (if truthy (dict_get overrides ''restrict_single_supported_roomtype'' (PyBool False))
        then [(164, ''np.random.choice''), (178, ''apply_greedy_restriction'')] else [])
     @ [(180, ''Solver''), (183, ''solve_rooms''), (199, ''solve_large''),
        (203, ''greedy.iterate_assignments''), (207, ''np.concatenate''), (208, ''np.min''),
        (210, ''solver.get_bpy_objects''), (211, ''np.min''),
        (240, ''add_bottle''), (242, ''placement.camera.spawn_camera_rigs''),
        (268, ''pose_cameras''), (292, ''animate_cameras''),
        (302, ''bpy.props.EnumProperty''), (315, ''set_visibility_mode''),
        (317, ''populate_intermediate_pholders''),
        (335, ''solve_medium''), (346, ''solve_small''), (348, ''populate_assets''),
        (352, ''room_doors''), (353, ''room_windows''), (355, ''solver.get_bpy_objects''),
        (356, ''room_stairs''), (357, ''skirting_floor''), (358, ''skirting_ceiling''),
        (360, ''butil.get_collection''), (361, ''room_dec.split_rooms''),
        (363, ''room_walls''), (364, ''room_pillars''), (365, ''room_floors''),
        (366, ''room_ceilings'')]"

definition plan_after_snapshot :: "(string, pyval) dict \<Rightarrow> (nat \<times> string) list" where
  "plan_after_snapshot overrides =
     [(371, ''cam_util.get_camera''), (378, ''lights_off''), (385, ''invisible_room_ceilings''),
      (387, ''overhead_cam''), (395, ''hide_other_rooms''), (404, ''nature_backdrop'')]
     @ (if truthy (dict_get overrides ''topview'' (PyBool False))
        then [(422, ''rooms_split[group].objects''), (428, ''read_co'')] else [])"

definition plan_before_snapshot :: "(string, pyval) dict \<Rightarrow> (nat \<times> string) list" where
  "plan_before_snapshot overrides =
     plan_before_check @ [(158, ''checks.check_all'')] @ plan_solving overrides"

definition plan :: "(string, pyval) dict \<Rightarrow> (nat \<times> string) list" where
  "plan overrides =
     plan_before_check @ [(158, ''checks.check_all'')] @ plan_solving overrides
     @ [(369, ''state.to_json'')] @ plan_after_snapshot overrides"

definition stage_order :: "string list" where
  "stage_order =
     [''terrain'', ''sky_lighting'', ''solve_rooms'', ''solve_large'', ''add_bottle'',
      ''pose_cameras'', ''animate_cameras'', ''populate_intermediate_pholders'',
      ''solve_medium'', ''solve_small'', ''populate_assets'', ''room_doors'', ''room_windows'',
      ''room_stairs'', ''skirting_floor'', ''skirting_ceiling'', ''room_walls'', ''room_pillars'',
      ''room_floors'', ''room_ceilings'', ''lights_off'', ''invisible_room_ceilings'',
      ''overhead_cam'', ''hide_other_rooms'', ''nature_backdrop'']"

text \<open>
  What the logged actions of the driver look like: where the validation pass, the random
  choice and the snapshot are logged, and which names stages and collaborators have.
\<close>

fun shaped :: "world \<Rightarrow> string \<Rightarrow> action \<Rightarrow> bool" where
  "shaped w folder (CheckAll l stages vars) =
     (l = 158 \<and> stages = default_greedy_stages (constants w) \<and> vars = all_vars (constants w))"
| "shaped w folder (ToJson l path) = (l = 369 \<and> path = folder @ ''/solve_state.json'')"
| "shaped w folder (NpRandomChoice l xs x) =
     (l = 164 \<and> xs = room_types \<and> x = room_types ! (np_draw w mod length room_types))"
| "shaped w folder (Stage l n out body) =
     (n \<in> set stage_order
      \<and> (n = ''add_bottle'' \<longrightarrow> l = 240 \<and> out \<noteq> SKIPPED_CHANCE \<and> out \<noteq> SKIPPED_PREREQ))"
| "shaped w folder (Call l f) =
     (f \<notin> set stage_order
      \<and> f \<notin> {''checks.check_all'', ''state.to_json'', ''np.random.choice''})"
| "shaped w folder (SolveObjects l k i n ab) = True"

text \<open>
  Three ways of speaking about all runs of a program: the view of its log follows a
  list (it is a prefix of the list when the program raises and the whole list when it
  returns), it logs only actions with a property, and it raises only errors of a set.
\<close>

definition follows :: "(action \<Rightarrow> 'b list) \<Rightarrow> 'b list \<Rightarrow> 'a prog \<Rightarrow> bool" where
  "follows view L m =
     (\<forall>hist. case snd (m hist) of
              Inl e \<Rightarrow> prefix (concat (map view (fst (m hist)))) L
            | Inr x \<Rightarrow> concat (map view (fst (m hist))) = L)"

definition emits_only :: "(action \<Rightarrow> bool) \<Rightarrow> 'a prog \<Rightarrow> bool" where
  "emits_only P m = (\<forall>hist. \<forall>a\<in>set (fst (m hist)). P a)"

definition fails_in :: "py_error set \<Rightarrow> 'a prog \<Rightarrow> bool" where
  "fails_in S m = (\<forall>hist e. snd (m hist) = Inl e \<longrightarrow> e \<in> S)"

definition never_returns :: "'a prog \<Rightarrow> bool" where
  "never_returns m = (\<forall>hist x. snd (m hist) \<noteq> Inr x)"

definition deep :: "(action \<Rightarrow> bool) \<Rightarrow> action \<Rightarrow> bool" where
  "deep P a = (\<forall>b\<in>set (flat a). P b)"

section \<open>Example worlds\<close>

text \<open>
  A scene with no table, no surface and no small object, the only kind of scene on which
  the driver gets past line 282; a world in which no collaborator raises and every
  assignment is placed; and the overrides that carry the three step counts.
\<close>

definition bare_state :: state where
  "bare_state =
     \<lparr> objs =
        [(''bedroom_0'',
            \<lparr> obj = \<lparr> name = ''bedroom_0'', dimensions_length_lt_1 = False \<rparr>,
              tags = {Semantics ''Room'', Semantics ''Bedroom''},
              relations = [] \<rparr>),
         (''wardrobe_0'',
            \<lparr> obj = \<lparr> name = ''wardrobe_0'', dimensions_length_lt_1 = False \<rparr>,
              tags = {Semantics ''Object''},
              relations =
                [(StableAgainst {Subpart ''Bottom''} {Subpart ''SupportSurface''}, ''bedroom_0'')] \<rparr>)] \<rparr>"

definition quiet_world :: world where
  "quiet_world =
     \<lparr> constants = example_cu,
       raises = (\<lambda>l f. False),
       chance = (\<lambda>seed n. True),
       np_draw = 7,
       restricted = (\<lambda>stages. stages),
       greedy_restricted = (\<lambda>stages room. stages),
       solver_state = (\<lambda>n. bare_state),
       n_assignments = (\<lambda>k. 1),
       placement = (\<lambda>k i. Placed),
       inview = (\<lambda>i. True),
       backdrop_height = 0 \<rparr>"

definition example_overrides :: "(string, pyval) dict" where
  "example_overrides =
     [(''solve_steps_large'', PyInt 300), (''solve_steps_medium'', PyInt 200),
      (''solve_steps_small'', PyInt 50)]"

text \<open>
  A world in which no assignment can be placed, and one whose scene has no table and a
  small lamp.
\<close>

definition small_object_state :: state where
  "small_object_state =
     \<lparr> objs =
        [(''bedroom_0'',
            \<lparr> obj = \<lparr> name = ''bedroom_0'', dimensions_length_lt_1 = False \<rparr>,
              tags = {Semantics ''Room'', Semantics ''Bedroom''},
              relations = [] \<rparr>),
         (''lamp_0'',
            \<lparr> obj = \<lparr> name = ''lamp_0'', dimensions_length_lt_1 = True \<rparr>,
              tags = {Semantics ''Object''},
              relations =
                [(StableAgainst {Subpart ''Bottom''} {Subpart ''SupportSurface''}, ''bedroom_0'')] \<rparr>)] \<rparr>"

definition small_object_world :: world where
  "small_object_world = quiet_world \<lparr> solver_state := (\<lambda>n. small_object_state) \<rparr>"

definition infeasible_world :: world where
  "infeasible_world = quiet_world \<lparr> placement := (\<lambda>k i. NoFeasiblePlacement) \<rparr>"

text \<open>
  A world whose process-wide generator yields another number, one in which no
  assignment is enumerated, and overrides that switch on the room-type restriction, the
  top view and an abort flag for the medium level.
\<close>

definition other_draw_world :: world where
  "other_draw_world = quiet_world \<lparr> np_draw := 8 \<rparr>"

definition no_assignment_world :: world where
  "no_assignment_world = quiet_world \<lparr> n_assignments := (\<lambda>k. 0) \<rparr>"

definition restricting_overrides :: "(string, pyval) dict" where
  "restricting_overrides =
     (''restrict_single_supported_roomtype'', PyBool True) # example_overrides"

definition topview_overrides :: "(string, pyval) dict" where
  "topview_overrides = (''topview'', PyBool True) # example_overrides"

definition abort_everywhere_overrides :: "(string, pyval) dict" where
  "abort_everywhere_overrides =
     [(''abort_unsatisfied_large'', PyBool True), (''abort_unsatisfied_medium'', PyBool True),
      (''abort_unsatisfied_small'', PyBool True)] @ example_overrides"

definition without_large_steps :: "(string, pyval) dict" where
  "without_large_steps = [(''solve_steps_medium'', PyInt 200), (''solve_steps_small'', PyInt 50)]"

section \<open>Properties of the stage catalog\<close>

lemma clause_holds_positive [simp]:
  "clause_holds st k AnyRelation T = related_to st k AnyRelation T"
  "clause_holds st k (StableAgainst a b) T = related_to st k (StableAgainst a b) T"
  by (simp_all add: clause_holds_def)

lemma clause_holds_negated [simp]:
  "clause_holds st k (NegatedRelation r) T = (\<not> clause_holds st k r T)"
  by (auto simp: clause_holds_def split: prod.splits)

lemma matches_with_relation:
  "matches st asg (with_relation d r T) =
     (\<lambda>k. matches st asg d k \<and> clause_holds st k r (matches st asg T))"
  by (rule ext, cases d) (auto simp: clause_holds_def related_to_def split: option.splits)

lemma matches_with_tags:
  "matches st asg (with_tags d ts) =
     (\<lambda>k. matches st asg d k \<and> (\<forall>t\<in>ts. entity_tagged st asg k t))"
  by (rule ext, cases d) (auto simp: entity_tagged_def split: option.splits)

lemma matches_all_room: "matches st asg all_room = room_entity st asg"
  by (rule ext) (auto simp: all_room_def room_entity_def entity_tagged_def split: option.splits)

lemma matches_all_obj: "matches st asg all_obj = object_entity st asg"
  by (rule ext) (auto simp: all_obj_def object_entity_def entity_tagged_def split: option.splits)

lemma matches_primary: "matches st asg (primary cu) = primary_object cu st asg"
  by (rule ext)
    (simp add: primary_def all_obj_in_room_def matches_with_relation matches_with_tags
      matches_all_room matches_all_obj primary_object_def)

lemma matches_secondary: "matches st asg (secondary cu) = secondary_object cu st asg"
  by (rule ext)
    (simp add: secondary_def matches_with_relation matches_with_tags
      matches_primary matches_all_obj secondary_object_def)

lemma catalog_list:
  "default_greedy_stages cu =
    [(''rooms'', all_room),
     (''on_floor'', with_relation (primary cu) (StableAgainst {} (floortags cu)) all_room),
     (''on_wall'',
        with_relation
          (with_relation
            (with_relation (primary cu) (NegatedRelation (StableAgainst {} (floortags cu))) all_room)
            (NegatedRelation (StableAgainst {} (ceilingtags cu))) all_room)
          (StableAgainst {} (walltags cu)) all_room),
     (''on_ceiling'',
        with_relation
          (with_relation
            (with_relation (primary cu) (NegatedRelation (StableAgainst {} (floortags cu))) all_room)
            (StableAgainst {} (ceilingtags cu)) all_room)
          (NegatedRelation (StableAgainst {} (walltags cu))) all_room),
     (''side_obj'', with_relation (secondary cu) (StableAgainst {} (side cu)) all_obj),
     (''obj_ontop_obj'',
        with_relation (with_relation (nonside cu) (ontop cu) all_obj) (NegatedRelation (on cu)) all_obj),
     (''obj_on_support'',
        with_relation (with_relation (nonside cu) (on cu) all_obj) (NegatedRelation (ontop cu)) all_obj)]"
  by (simp add: default_greedy_stages_def Let_def)

lemma clauses_with_relation: "clauses (with_relation d r T) = clauses d @ [(r, T)]"
  by (cases d) simp

lemma clauses_with_tags: "clauses (with_tags d ts) = clauses d"
  by (cases d) simp

lemma secondary_not_primary:
  "secondary_object cu st asg k \<Longrightarrow> \<not> primary_object cu st asg k"
  by (auto simp: secondary_object_def primary_object_def related_to_def split: option.splits)

lemma room_not_object: "room_entity st asg k \<Longrightarrow> \<not> object_entity st asg k"
  by (simp add: room_entity_def object_entity_def)

text \<open>
  Claim C1. The catalog builder returns the seven stages \<open>rooms\<close>, \<open>on_floor\<close>,
  \<open>on_wall\<close>, \<open>on_ceiling\<close>, \<open>side_obj\<close>, \<open>obj_ontop_obj\<close>, \<open>obj_on_support\<close> in this
  order. The \<open>rooms\<close> domain matches exactly the room entities; the next three match the
  primary objects (related to a room, related to no object) with the floor, wall or
  ceiling relation to a room; the last three match the secondary objects (related to a
  primary object that the object variable binds) with the side, ontop or on relation to
  an object.
\<close>

theorem default_greedy_stages_catalog:
  "dict_keys (default_greedy_stages cu) =
     [''rooms'', ''on_floor'', ''on_wall'', ''on_ceiling'', ''side_obj'', ''obj_ontop_obj'',
      ''obj_on_support'']
   \<and> map (\<lambda>nd. matches st asg (snd nd) k) (default_greedy_stages cu) =
     [room_entity st asg k,
      primary_object cu st asg k
        \<and> related_to st k (StableAgainst {} (floortags cu)) (room_entity st asg),
      primary_object cu st asg k
        \<and> \<not> related_to st k (StableAgainst {} (floortags cu)) (room_entity st asg)
        \<and> \<not> related_to st k (StableAgainst {} (ceilingtags cu)) (room_entity st asg)
        \<and> related_to st k (StableAgainst {} (walltags cu)) (room_entity st asg),
      primary_object cu st asg k
        \<and> \<not> related_to st k (StableAgainst {} (floortags cu)) (room_entity st asg)
        \<and> related_to st k (StableAgainst {} (ceilingtags cu)) (room_entity st asg)
        \<and> \<not> related_to st k (StableAgainst {} (walltags cu)) (room_entity st asg),
      secondary_object cu st asg k
        \<and> related_to st k (StableAgainst {} (side cu)) (object_entity st asg),
      secondary_object cu st asg k
        \<and> \<not> related_to st k (StableAgainst {} (side cu)) (object_entity st asg)
        \<and> clause_holds st k (ontop cu) (object_entity st asg)
        \<and> \<not> clause_holds st k (on cu) (object_entity st asg),
      secondary_object cu st asg k
        \<and> \<not> related_to st k (StableAgainst {} (side cu)) (object_entity st asg)
        \<and> clause_holds st k (on cu) (object_entity st asg)
        \<and> \<not> clause_holds st k (ontop cu) (object_entity st asg)]"
  by (simp add: catalog_list dict_keys_def matches_with_relation matches_all_room matches_all_obj
      matches_primary matches_secondary nonside_def)

theorem default_greedy_stages_catalog_witness:
  "map (\<lambda>nd. matches example_state example_asg (snd nd) ''table_0'')
     (default_greedy_stages example_cu) = [False, True, False, False, False, False, False]
   \<and> map (\<lambda>nd. matches example_state example_asg (snd nd) ''cup_0'')
     (default_greedy_stages example_cu) = [False, False, False, False, False, True, False]"
  using default_greedy_stages_catalog [of example_cu example_state example_asg "''table_0''"]
    default_greedy_stages_catalog [of example_cu example_state example_asg "''cup_0''"]
  by (simp add: example_cu_def example_state_def example_asg_def room_entity_def
      object_entity_def primary_object_def secondary_object_def related_to_def entity_tagged_def
      clause_holds_def)

text \<open>
  Claim C2. No entity matches two stages of the catalog: the later stages carry the
  negated clauses of the earlier support relations, \<open>obj_ontop_obj\<close> excludes the on
  relation, \<open>obj_on_support\<close> excludes the ontop relation, and both exclude the side
  relation.
\<close>

theorem catalog_stages_exclusive:
  "length (matching_stages (default_greedy_stages cu) st asg k) \<le> 1
   \<and> map (\<lambda>nd. map fst (clauses (snd nd))) (default_greedy_stages cu) =
     [[],
      [AnyRelation, NegatedRelation AnyRelation, StableAgainst {} (floortags cu)],
      [AnyRelation, NegatedRelation AnyRelation,
       NegatedRelation (StableAgainst {} (floortags cu)),
       NegatedRelation (StableAgainst {} (ceilingtags cu)),
       StableAgainst {} (walltags cu)],
      [AnyRelation, NegatedRelation AnyRelation,
       NegatedRelation (StableAgainst {} (floortags cu)),
       StableAgainst {} (ceilingtags cu),
       NegatedRelation (StableAgainst {} (walltags cu))],
      [AnyRelation, StableAgainst {} (side cu)],
      [AnyRelation, NegatedRelation (StableAgainst {} (side cu)), ontop cu,
       NegatedRelation (on cu)],
      [AnyRelation, NegatedRelation (StableAgainst {} (side cu)), on cu,
       NegatedRelation (ontop cu)]]"
proof
  have "primary_object cu st asg k \<Longrightarrow> \<not> room_entity st asg k"
    by (simp add: primary_object_def room_entity_def object_entity_def)
  moreover have "secondary_object cu st asg k \<Longrightarrow> \<not> room_entity st asg k"
    by (simp add: secondary_object_def room_entity_def object_entity_def)
  moreover note secondary_not_primary [of cu st asg k]
  ultimately show "length (matching_stages (default_greedy_stages cu) st asg k) \<le> 1"
    by (auto simp: matching_stages_def catalog_list matches_with_relation matches_all_room
        matches_all_obj matches_primary matches_secondary nonside_def)
next
  show "map (\<lambda>nd. map fst (clauses (snd nd))) (default_greedy_stages cu) =
     [[],
      [AnyRelation, NegatedRelation AnyRelation, StableAgainst {} (floortags cu)],
      [AnyRelation, NegatedRelation AnyRelation,
       NegatedRelation (StableAgainst {} (floortags cu)),
       NegatedRelation (StableAgainst {} (ceilingtags cu)),
       StableAgainst {} (walltags cu)],
      [AnyRelation, NegatedRelation AnyRelation,
       NegatedRelation (StableAgainst {} (floortags cu)),
       StableAgainst {} (ceilingtags cu),
       NegatedRelation (StableAgainst {} (walltags cu))],
      [AnyRelation, StableAgainst {} (side cu)],
      [AnyRelation, NegatedRelation (StableAgainst {} (side cu)), ontop cu,
       NegatedRelation (on cu)],
      [AnyRelation, NegatedRelation (StableAgainst {} (side cu)), on cu,
       NegatedRelation (ontop cu)]]"
    by (simp add: catalog_list clauses_with_relation clauses_with_tags nonside_def secondary_def
        primary_def all_obj_in_room_def all_obj_def all_room_def)
qed

theorem catalog_stages_exclusive_witness:
  "matching_stages (default_greedy_stages example_cu) example_state example_asg ''shelf_0''
     = [''on_wall'']
   \<and> length (matching_stages (default_greedy_stages example_cu) example_state example_asg
        ''shelf_0'') \<le> 1"
  using catalog_stages_exclusive [of example_cu example_state example_asg "''shelf_0''"]
  by (simp add: matching_stages_def default_greedy_stages_def Let_def example_cu_def
      example_state_def example_asg_def all_room_def all_obj_def primary_def all_obj_in_room_def
      secondary_def nonside_def)

lemma bind_raise [simp]: "bind (raise e) f = raise e"
  by (simp add: bind_def raise_def)

lemma bind_ret [simp]: "bind (ret x) f = f x"
  by (rule ext) (simp add: bind_def ret_def split: prod.splits)

section \<open>Rules for the plan of a program\<close>

lemma follows_eq: "follows view L' m \<Longrightarrow> L' = L \<Longrightarrow> follows view L m"
  by simp

lemma fst_bind:
  "fst (bind m f hist) =
     fst (m hist) @ (case snd (m hist) of Inl e \<Rightarrow> [] | Inr x \<Rightarrow> fst (f x (hist @ fst (m hist))))"
  by (simp add: bind_def split: prod.splits sum.splits)

lemma snd_bind:
  "snd (bind m f hist) =
     (case snd (m hist) of Inl e \<Rightarrow> Inl e | Inr x \<Rightarrow> snd (f x (hist @ fst (m hist))))"
  by (simp add: bind_def split: prod.splits sum.splits)

lemma follows_bind:
  assumes "follows view L1 m" and "\<And>x. follows view L2 (f x)"
  shows "follows view (L1 @ L2) (bind m f)"
  unfolding follows_def
proof
  fix hist
  from assms(1) have 1: "case snd (m hist) of
      Inl e \<Rightarrow> prefix (concat (map view (fst (m hist)))) L1
    | Inr x \<Rightarrow> concat (map view (fst (m hist))) = L1"
    by (simp add: follows_def)
  show "case snd (bind m f hist) of
          Inl e \<Rightarrow> prefix (concat (map view (fst (bind m f hist)))) (L1 @ L2)
        | Inr x \<Rightarrow> concat (map view (fst (bind m f hist))) = L1 @ L2"
  proof (cases "snd (m hist)")
    case (Inl e)
    with 1 show ?thesis by (simp add: fst_bind snd_bind)
  next
    case (Inr x)
    from assms(2)[of x] have 2: "case snd (f x (hist @ fst (m hist))) of
        Inl e \<Rightarrow> prefix (concat (map view (fst (f x (hist @ fst (m hist)))))) L2
      | Inr y \<Rightarrow> concat (map view (fst (f x (hist @ fst (m hist))))) = L2"
      by (simp add: follows_def)
    from Inr 1 2 show ?thesis
      by (simp add: fst_bind snd_bind split: sum.splits)
  qed
qed

lemma follows_ret: "follows view [] (ret x)"
  by (simp add: follows_def ret_def)

lemma follows_raise: "follows view [] (raise e)"
  by (simp add: follows_def raise_def)

lemma follows_bind_raise: "follows view [] (bind (raise e) f)"
  by (simp add: follows_raise)

lemma follows_call: "follows view (view (Call l f)) (call w l f)"
  by (simp add: follows_def call_def)

lemma follows_emit: "follows view (view a) (emit a)"
  by (simp add: follows_def emit_def)

lemma follows_check_all: "follows view (view (CheckAll l stages vars)) (check_all w l stages vars)"
  by (simp add: follows_def check_all_def)

lemma follows_to_json:
  "(\<And>s. st = Some s \<Longrightarrow> view (ToJson l path) = L) \<Longrightarrow> follows view L (to_json w l st path)"
  by (cases st) (auto simp: follows_def to_json_def raise_def)

lemma follows_np_random_choice:
  "xs \<noteq> [] \<Longrightarrow> view (NpRandomChoice l xs (xs ! (np_draw w mod length xs))) = L
     \<Longrightarrow> follows view L (np_random_choice w l xs)"
  by (auto simp: follows_def np_random_choice_def)

lemma follows_run_stage:
  "(\<And>out body. view (Stage l n out body) = L) \<Longrightarrow> follows view L (run_stage w p l n fn uc d pre)"
  by (auto simp: follows_def run_stage_def split: option.splits prod.splits sum.splits)

lemma follows_dict_subscript: "follows view [] (dict_subscript d k)"
  by (auto simp: follows_def dict_subscript_def raise_def ret_def split: option.splits)

lemma follows_if:
  "(c \<Longrightarrow> follows view La a) \<Longrightarrow> (\<not> c \<Longrightarrow> follows view Lb b)
     \<Longrightarrow> follows view (if c then La else Lb) (if c then a else b)"
  by simp

lemma follows_unpack_posed: "follows view [] (unpack_posed posed)"
  by (auto simp: follows_def unpack_posed_def raise_def ret_def split: option.splits)

lemma follows_select_object_to_follow:
  "follows view [] (select_object_to_follow st focus bottle nonroom_objs)"
  by (auto simp: follows_def select_object_to_follow_def raise_def ret_def bind_def Let_def
      split: option.splits)

lemmas follows_rules = follows_bind_raise follows_bind follows_ret follows_raise follows_call follows_emit
  follows_check_all follows_to_json follows_np_random_choice follows_run_stage
  follows_dict_subscript follows_if follows_unpack_posed follows_select_object_to_follow

lemmas compose_defs = compose_indoors_def setup_scene_def build_catalog_def restrict_roomtype_def
  solve_rooms_and_large_def place_bottle_and_cameras_def visibility_and_placeholders_def
  set_visibility_mode_def solve_medium_and_small_def decorate_rooms_def final_views_def
  topview_def Let_def

lemma compose_follows_plan:
  "follows (\<lambda>a. [outline a]) (plan overrides)
     (compose_indoors w output_folder scene_seed add_bottle focus_on_bottle overrides)"
  apply (rule follows_eq)
   apply (unfold compose_defs)
   apply (rule follows_rules | simp add: room_types_def)+
  apply (simp add: plan_def plan_before_check_def plan_solving_def plan_after_snapshot_def)
  done


section \<open>Rules for the actions a program logs\<close>

lemma emits_only_bind:
  "emits_only P m \<Longrightarrow> (\<And>x. emits_only P (f x)) \<Longrightarrow> emits_only P (bind m f)"
  by (auto simp: emits_only_def fst_bind split: sum.splits)

lemma emits_only_ret: "emits_only P (ret x)"
  by (simp add: emits_only_def ret_def)

lemma emits_only_raise: "emits_only P (raise e)"
  by (simp add: emits_only_def raise_def)

lemma emits_only_bind_raise: "emits_only P (bind (raise e) f)"
  by (simp add: emits_only_raise)

lemma emits_only_call: "P (Call l f) \<Longrightarrow> emits_only P (call w l f)"
  by (simp add: emits_only_def call_def)

lemma emits_only_emit: "P a \<Longrightarrow> emits_only P (emit a)"
  by (simp add: emits_only_def emit_def)

lemma emits_only_check_all:
  "P (CheckAll l stages vars) \<Longrightarrow> emits_only P (check_all w l stages vars)"
  by (simp add: emits_only_def check_all_def)

lemma emits_only_solve_objects:
  "P (SolveObjects l k i n ab) \<Longrightarrow> emits_only P (solve_objects w l k i n ab)"
  by (simp add: emits_only_def solve_objects_def)

lemma emits_only_to_json: "P (ToJson l path) \<Longrightarrow> emits_only P (to_json w l st path)"
  by (cases st) (auto simp: emits_only_def to_json_def raise_def)

lemma emits_only_np_random_choice:
  "xs \<noteq> [] \<Longrightarrow> P (NpRandomChoice l xs (xs ! (np_draw w mod length xs)))
     \<Longrightarrow> emits_only P (np_random_choice w l xs)"
  by (auto simp: emits_only_def np_random_choice_def)

lemma emits_only_dict_subscript: "emits_only P (dict_subscript d k)"
  by (auto simp: emits_only_def dict_subscript_def raise_def ret_def split: option.splits)

lemma emits_only_state_objs: "emits_only P (state_objs st)"
  by (auto simp: emits_only_def state_objs_def raise_def ret_def split: option.splits)

lemma emits_only_unpack_posed: "emits_only P (unpack_posed posed)"
  by (auto simp: emits_only_def unpack_posed_def raise_def ret_def split: option.splits)

lemma emits_only_select_object_to_follow:
  "emits_only P (select_object_to_follow st focus bottle nonroom_objs)"
  by (auto simp: emits_only_def select_object_to_follow_def raise_def ret_def bind_def Let_def
      split: option.splits)

lemma emits_only_if:
  "(c \<Longrightarrow> emits_only P a) \<Longrightarrow> (\<not> c \<Longrightarrow> emits_only P b) \<Longrightarrow> emits_only P (if c then a else b)"
  by simp

lemma emits_only_for_each:
  "(\<And>i. emits_only P (body i)) \<Longrightarrow> emits_only P (for_each is body)"
  by (induction "is") (auto intro: emits_only_bind emits_only_ret)

lemma emits_only_topview_search: "(\<And>l f. P (Call l f)) \<Longrightarrow> emits_only P (topview_search w is)"
  by (induction "is") (auto intro!: emits_only_bind emits_only_ret emits_only_call emits_only_raise)

lemma emits_only_run_stage:
  "emits_only (deep P) fn \<Longrightarrow> (\<And>out body. P (Stage l n out body))
     \<Longrightarrow> emits_only (deep P) (run_stage w p l n fn uc d pre)"
  by (auto simp: emits_only_def run_stage_def deep_def split: option.splits prod.splits sum.splits
      dest!: spec[where x="[]"])

lemma deep_simps [simp]:
  "deep P (Call l f) = P (Call l f)"
  "deep P (CheckAll l stages vars) = P (CheckAll l stages vars)"
  "deep P (NpRandomChoice l xs x) = P (NpRandomChoice l xs x)"
  "deep P (SolveObjects l k i n ab) = P (SolveObjects l k i n ab)"
  "deep P (ToJson l path) = P (ToJson l path)"
  by (simp_all add: deep_def)

lemmas emits_only_rules = emits_only_bind_raise emits_only_bind emits_only_ret emits_only_raise emits_only_call
  emits_only_emit emits_only_check_all emits_only_solve_objects emits_only_to_json
  emits_only_np_random_choice emits_only_dict_subscript emits_only_state_objs
  emits_only_unpack_posed emits_only_select_object_to_follow emits_only_if emits_only_for_each
  emits_only_run_stage

lemmas stage_defs = add_coarse_terrain_def solve_rooms_def solve_large_def solve_stage_def
  solve_medium_def solve_small_def add_bottle_to_scene_def pose_cameras_def
  animate_cameras_def turn_off_lights_def invisible_room_ceilings_def

lemma compose_emits_deep:
  assumes "\<And>l f. P (Call l f)"
    and "\<And>l n out body. P (Stage l n out body)"
    and "\<And>l s v. P (CheckAll l s v)"
    and "\<And>l xs x. P (NpRandomChoice l xs x)"
    and "\<And>l p. P (ToJson l p)"
    and "\<And>l k i n ab. P (SolveObjects l k i n ab)"
  shows "emits_only (deep P)
     (compose_indoors w output_folder scene_seed add_bottle focus_on_bottle overrides)"
  unfolding compose_defs stage_defs
  by (rule emits_only_rules | simp add: room_types_def assms)+


lemma emits_only_run_stage_top:
  "(\<And>out body. (out = SKIPPED_CHANCE \<longrightarrow> uc) \<longrightarrow> (out = SKIPPED_PREREQ \<longrightarrow> pre \<noteq> None)
       \<longrightarrow> P (Stage l n out body))
     \<Longrightarrow> emits_only P (run_stage w p l n fn uc d pre)"
  by (auto simp: emits_only_def run_stage_def split: option.splits prod.splits sum.splits)

lemmas emits_only_top_rules = emits_only_bind_raise emits_only_bind emits_only_ret
  emits_only_raise emits_only_call emits_only_emit emits_only_check_all emits_only_to_json
  emits_only_np_random_choice emits_only_dict_subscript emits_only_unpack_posed
  emits_only_select_object_to_follow emits_only_if emits_only_run_stage_top

lemma emits_only_bind_never:
  "emits_only P m \<Longrightarrow> never_returns m \<Longrightarrow> emits_only P (bind m f)"
  unfolding emits_only_def never_returns_def fst_bind
  by (auto split: sum.splits) metis

lemma emits_onlyD: "emits_only P m \<Longrightarrow> a \<in> set (trace m) \<Longrightarrow> P a"
  by (simp add: emits_only_def trace_def run_def)

lemma emits_only_deepD:
  "emits_only (deep P) m \<Longrightarrow> a \<in> set (all_actions (trace m)) \<Longrightarrow> P a"
  by (auto simp: emits_only_def trace_def run_def all_actions_def deep_def)

section \<open>Rules for programs that never return\<close>

lemma never_returns_bind1: "never_returns m \<Longrightarrow> never_returns (bind m f)"
  by (auto simp: never_returns_def snd_bind split: sum.splits)

lemma never_returns_bind2: "(\<And>x. never_returns (f x)) \<Longrightarrow> never_returns (bind m f)"
  by (auto simp: never_returns_def snd_bind split: sum.splits)

lemma never_returns_raise: "never_returns (raise e)"
  by (simp add: never_returns_def raise_def)

lemma never_returnsD: "never_returns m \<Longrightarrow> result m \<noteq> Inr x"
  by (simp add: never_returns_def result_def run_def)

section \<open>Rules for the errors a program raises\<close>

lemma fails_in_bind:
  "fails_in S m \<Longrightarrow> (\<And>x. fails_in S (f x)) \<Longrightarrow> fails_in S (bind m f)"
  by (auto simp: fails_in_def snd_bind split: sum.splits)

lemma fails_in_bind_raise: "e \<in> S \<Longrightarrow> fails_in S (bind (raise e) f)"
  by (simp add: fails_in_def) (simp add: raise_def)

lemma fails_in_ret: "fails_in S (ret x)"
  by (simp add: fails_in_def ret_def)

lemma fails_in_raise: "e \<in> S \<Longrightarrow> fails_in S (raise e)"
  by (simp add: fails_in_def raise_def)

lemma fails_in_call: "ExternalError l f \<in> S \<Longrightarrow> fails_in S (call w l f)"
  by (simp add: fails_in_def call_def)

lemma fails_in_emit: "fails_in S (emit a)"
  by (simp add: fails_in_def emit_def)

lemma fails_in_check_all: "ConfigurationError \<in> S \<Longrightarrow> fails_in S (check_all w l stages vars)"
  by (simp add: fails_in_def check_all_def)

lemma fails_in_solve_objects:
  "ExternalError l ''solver.solve_objects'' \<in> S \<Longrightarrow> (ab \<Longrightarrow> UnsatisfiedError k i \<in> S)
     \<Longrightarrow> fails_in S (solve_objects w l k i n ab)"
  by (auto simp: fails_in_def solve_objects_def split: solve_result.splits if_splits)

lemma fails_in_to_json:
  "AttributeError ''to_json'' \<in> S \<Longrightarrow> ExternalError l ''state.to_json'' \<in> S
     \<Longrightarrow> fails_in S (to_json w l st path)"
  by (cases st) (auto simp: fails_in_def to_json_def raise_def)

lemma fails_in_np_random_choice:
  "xs \<noteq> [] \<Longrightarrow> fails_in S (np_random_choice w l xs)"
  by (auto simp: fails_in_def np_random_choice_def)

lemma fails_in_dict_subscript: "KeyError k \<in> S \<Longrightarrow> fails_in S (dict_subscript d k)"
  by (auto simp: fails_in_def dict_subscript_def raise_def ret_def split: option.splits)

lemma fails_in_state_objs: "AttributeError ''objs'' \<in> S \<Longrightarrow> fails_in S (state_objs st)"
  by (auto simp: fails_in_def state_objs_def raise_def ret_def split: option.splits)

lemma fails_in_unpack_posed: "TypeError ''cannot unpack'' \<in> S \<Longrightarrow> fails_in S (unpack_posed posed)"
  by (auto simp: fails_in_def unpack_posed_def raise_def ret_def split: option.splits)

lemma fails_in_select_object_to_follow:
  "AttributeError ''get_parents'' \<in> S \<Longrightarrow> NameError ''random'' \<in> S
     \<Longrightarrow> fails_in S (select_object_to_follow st focus bottle nonroom_objs)"
  by (auto simp: fails_in_def select_object_to_follow_def raise_def ret_def bind_def Let_def
      split: option.splits if_splits)

lemma fails_in_if:
  "(c \<Longrightarrow> fails_in S a) \<Longrightarrow> (\<not> c \<Longrightarrow> fails_in S b) \<Longrightarrow> fails_in S (if c then a else b)"
  by simp

lemma fails_in_for_each:
  "(\<And>i. fails_in S (body i)) \<Longrightarrow> fails_in S (for_each is body)"
  by (induction "is") (auto intro: fails_in_bind fails_in_ret)

lemma fails_in_run_stage: "fails_in S fn \<Longrightarrow> fails_in S (run_stage w p l n fn uc d pre)"
  unfolding fails_in_def run_stage_def
  by (auto split: option.splits prod.splits sum.splits if_splits) (metis snd_conv)+

lemma fails_inD: "fails_in S m \<Longrightarrow> result m = Inl e \<Longrightarrow> e \<in> S"
  by (simp add: fails_in_def result_def run_def)

lemmas fails_in_rules = fails_in_bind_raise fails_in_bind fails_in_ret fails_in_raise
  fails_in_call fails_in_emit fails_in_check_all fails_in_solve_objects fails_in_to_json
  fails_in_np_random_choice fails_in_dict_subscript fails_in_state_objs fails_in_unpack_posed
  fails_in_select_object_to_follow fails_in_if fails_in_for_each fails_in_run_stage

lemma compose_fails_in:
  assumes "\<And>l f. ExternalError l f \<in> S" "ConfigurationError \<in> S" "\<And>k i. UnsatisfiedError k i \<in> S"
    "TypeError ''cannot unpack'' \<in> S" "NameError ''random'' \<in> S"
    "AttributeError ''to_json'' \<in> S" "AttributeError ''objs'' \<in> S"
    "AttributeError ''get_parents'' \<in> S" "AttributeError ''bpy.contexScene'' \<in> S"
    "\<And>k. k \<in> {''rooms'', ''on_floor'', ''on_wall'', ''on_ceiling'', ''side_obj'', ''obj_ontop_obj'',
       ''obj_on_support'', ''solve_steps_large'', ''solve_steps_medium'', ''solve_steps_small''}
       \<Longrightarrow> KeyError k \<in> S"
  shows "fails_in S
     (compose_indoors w output_folder scene_seed add_bottle focus_on_bottle overrides)"
  unfolding compose_defs stage_defs
  by (rule fails_in_rules | simp add: room_types_def assms)+

section \<open>The plan of the driver\<close>

lemma followsD:
  assumes "follows view L m"
  shows "prefix (concat (map view (trace m))) L"
    and "result m = Inr x \<Longrightarrow> concat (map view (trace m)) = L"
proof -
  from assms have *: "case snd (m []) of
      Inl e \<Rightarrow> prefix (concat (map view (fst (m [])))) L
    | Inr x \<Rightarrow> concat (map view (fst (m []))) = L"
    by (simp add: follows_def)
  then show "prefix (concat (map view (trace m))) L"
    by (cases "snd (m [])") (simp_all add: trace_def run_def)
  from * show "result m = Inr x \<Longrightarrow> concat (map view (trace m)) = L"
    by (simp add: trace_def result_def run_def)
qed

lemma concat_map_singleton: "concat (map (\<lambda>a. [f a]) xs) = map f xs"
  by (induction xs) simp_all

lemma compose_outline_prefix:
  "prefix (map outline
      (trace (compose_indoors w output_folder scene_seed add_bottle focus_on_bottle overrides)))
     (plan overrides)"
  using followsD(1) [OF compose_follows_plan] by (simp add: concat_map_singleton)

lemma compose_outline_complete:
  "result (compose_indoors w output_folder scene_seed add_bottle focus_on_bottle overrides) = Inr x
     \<Longrightarrow> map outline
       (trace (compose_indoors w output_folder scene_seed add_bottle focus_on_bottle overrides))
     = plan overrides"
  using followsD(2) [OF compose_follows_plan] by (simp add: concat_map_singleton)

lemma compose_follows_stage_order:
  "follows stage_view stage_order
     (compose_indoors w output_folder scene_seed add_bottle focus_on_bottle overrides)"
  apply (rule follows_eq)
   apply (unfold compose_defs)
   apply (rule follows_rules | simp add: room_types_def)+
  apply (simp add: stage_order_def)
  done

section \<open>Positions in a prefix of a list\<close>

lemma prefix_split_unique:
  assumes "prefix os (A @ x # B)" and "x \<notin> set A" and "x \<notin> set B"
    and "i < length os" and "os ! i = x"
  shows "i = length A" and "take i os = A" and "prefix (drop (Suc i) os) B"
proof -
  from assms(1) obtain zs where eq: "A @ x # B = os @ zs" by (auto simp: prefix_def)
  from assms(4) have "(os @ zs) ! i = os ! i" by (simp add: nth_append)
  with eq assms(5) have at: "(A @ x # B) ! i = x" by simp
  show i: "i = length A"
  proof (rule ccontr)
    assume neq: "i \<noteq> length A"
    show False
    proof (cases "i < length A")
      case True
      with at assms(2) show False by (auto simp: nth_append)
    next
      case False
      with neq have gt: "length A < i" by simp
      from assms(4) eq have "i < length (A @ x # B)" by simp
      with gt at have "(x # B) ! (i - length A) = x" "i - length A < Suc (length B)"
        by (auto simp: nth_append)
      moreover from gt obtain j where "i - length A = Suc j"
        by (cases "i - length A") auto
      ultimately have "B ! j = x" "j < length B" by auto
      with assms(3) show False by (metis nth_mem)
    qed
  qed
  from eq have "take i (A @ x # B) = take i (os @ zs)" by simp
  with i assms(4) show "take i os = A" by simp
  from eq have "drop (Suc i) (A @ x # B) = drop (Suc i) (os @ zs)" by simp
  with i assms(4) have "B = drop (Suc i) os @ drop (Suc i - length os) zs" by simp
  then show "prefix (drop (Suc i) os) B" by (metis prefixI)
qed

lemma filter_at_most_one:
  assumes "\<And>i. i < length xs \<Longrightarrow> P (xs ! i) \<Longrightarrow> i = c"
  shows "length (filter P xs) \<le> 1"
proof -
  have "{i. i < length xs \<and> P (xs ! i)} \<subseteq> {c}" using assms by auto
  then have "card {i. i < length xs \<and> P (xs ! i)} \<le> card {c}"
    by (intro card_mono) auto
  then show ?thesis by (simp add: length_filter_conv_card)
qed

lemma filter_nonempty: "i < length xs \<Longrightarrow> P (xs ! i) \<Longrightarrow> 1 \<le> length (filter P xs)"
  by (metis One_nat_def Suc_leI filter_empty_conv length_greater_0_conv nth_mem)

lemma prefix_nth: "prefix xs ys \<Longrightarrow> i < length xs \<Longrightarrow> xs ! i = ys ! i"
  by (auto simp: prefix_def nth_append)

section \<open>The parts of the plan\<close>

lemmas plan_defs = plan_def plan_before_check_def plan_solving_def plan_after_snapshot_def
  plan_before_snapshot_def

lemma plan_split: "plan ov = plan_before_snapshot ov @ (369, ''state.to_json'') # plan_after_snapshot ov"
  by (simp add: plan_def plan_before_snapshot_def)

lemma plan_split_check:
  "plan ov = plan_before_check @ (158, ''checks.check_all'')
     # (plan_solving ov @ (369, ''state.to_json'') # plan_after_snapshot ov)"
  by (simp add: plan_def)

lemma to_json_not_before: "(369, ''state.to_json'') \<notin> set (plan_before_snapshot ov)"
  by (simp add: plan_defs)

lemma to_json_not_after: "(369, ''state.to_json'') \<notin> set (plan_after_snapshot ov)"
  by (simp add: plan_defs)

lemma check_not_before: "(158, ''checks.check_all'') \<notin> set plan_before_check"
  by (simp add: plan_defs)

lemma check_not_after:
  "(158, ''checks.check_all'')
     \<notin> set (plan_solving ov @ (369, ''state.to_json'') # plan_after_snapshot ov)"
  by (simp add: plan_defs)


section \<open>The shape of the logged actions\<close>

lemma compose_shaped:
  "emits_only (shaped w output_folder)
     (compose_indoors w output_folder scene_seed add_bottle focus_on_bottle overrides)"
  unfolding compose_defs
  by (rule emits_only_top_rules | simp add: room_types_def stage_order_def)+

lemma shaped_to_json:
  "shaped w folder a \<Longrightarrow> snd (outline a) = ''state.to_json'' \<Longrightarrow> a = ToJson 369 (folder @ ''/solve_state.json'')"
  by (cases a) (auto simp: stage_order_def)

lemma shaped_check_all:
  "shaped w folder a \<Longrightarrow> snd (outline a) = ''checks.check_all''
     \<Longrightarrow> a = CheckAll 158 (default_greedy_stages (constants w)) (all_vars (constants w))"
  by (cases a) (auto simp: stage_order_def)

lemma is_to_json_outline: "is_to_json a \<Longrightarrow> snd (outline a) = ''state.to_json''"
  by (cases a) simp_all

lemma is_check_all_outline: "is_check_all a \<Longrightarrow> snd (outline a) = ''checks.check_all''"
  by (cases a) simp_all

section \<open>The snapshot of the scene state\<close>

text \<open>
  Claim C8, as amended. No run writes the snapshot more than once, and a run that
  returns writes it exactly once. When it is written, by \<^verbatim>\<open>state.to_json\<close> at line 369,
  everything up to the \<open>room_ceilings\<close> stage has been called before, all solving and
  decoration stages among it, and what is called afterwards is only the camera, the
  light, ceiling and room hiding stages, the backdrop and the top view: nothing reads the
  snapshot back.
\<close>

theorem snapshot_written_once_near_end:
  assumes "es = trace (compose_indoors w output_folder scene_seed add_bottle focus_on_bottle overrides)"
  shows "length (filter is_to_json es) \<le> 1
    \<and> (\<forall>x. result (compose_indoors w output_folder scene_seed add_bottle focus_on_bottle overrides)
             = Inr x \<longrightarrow> length (filter is_to_json es) = 1)
    \<and> (\<forall>i<length es. is_to_json (es ! i) \<longrightarrow>
          es ! i = ToJson 369 (output_folder @ ''/solve_state.json'')
          \<and> map outline (take i es) = plan_before_snapshot overrides
          \<and> prefix (map outline (drop (Suc i) es)) (plan_after_snapshot overrides))"
proof -
  let ?C = "compose_indoors w output_folder scene_seed add_bottle focus_on_bottle overrides"
  let ?x = "(369::nat, ''state.to_json'')"
  have pre: "prefix (map outline es) (plan_before_snapshot overrides @ ?x # plan_after_snapshot overrides)"
    using compose_outline_prefix [of w output_folder scene_seed add_bottle focus_on_bottle overrides]
    by (simp add: assms plan_split)
  have shape: "\<And>a. a \<in> set es \<Longrightarrow> shaped w output_folder a"
    using emits_onlyD [OF compose_shaped] by (simp add: assms)
  have at: "is_to_json (es ! i) \<Longrightarrow> i < length es \<Longrightarrow>
      es ! i = ToJson 369 (output_folder @ ''/solve_state.json'') \<and> map outline es ! i = ?x" for i
  proof -
    assume a: "is_to_json (es ! i)" "i < length es"
    from a have "shaped w output_folder (es ! i)" by (simp add: shape)
    moreover from a have "snd (outline (es ! i)) = ''state.to_json''"
      by (simp add: is_to_json_outline)
    ultimately have "es ! i = ToJson 369 (output_folder @ ''/solve_state.json'')"
      by (rule shaped_to_json)
    with a show ?thesis by simp
  qed
  have pos: "is_to_json (es ! i) \<Longrightarrow> i < length es \<Longrightarrow>
      i = length (plan_before_snapshot overrides)" for i
    using prefix_split_unique(1) [OF pre to_json_not_before to_json_not_after, of i] at by simp
  have once: "length (filter is_to_json es) \<le> 1"
    by (rule filter_at_most_one) (rule pos)
  have complete: "length (filter is_to_json es) = 1" if "result ?C = Inr x" for x
  proof -
    from compose_outline_complete [OF that]
    have eq: "map outline es = plan_before_snapshot overrides @ ?x # plan_after_snapshot overrides"
      by (simp add: assms plan_split)
    let ?i = "length (plan_before_snapshot overrides)"
    from eq have "length (map outline es) = Suc (?i + length (plan_after_snapshot overrides))"
      by simp
    then have len: "?i < length es" by simp
    from eq have "map outline es ! ?i = ?x" by (simp add: nth_append)
    with len have name: "snd (outline (es ! ?i)) = ''state.to_json''" by simp
    from len have "shaped w output_folder (es ! ?i)" by (simp add: shape)
    then have "es ! ?i = ToJson 369 (output_folder @ ''/solve_state.json'')"
      using name by (rule shaped_to_json)
    then have "is_to_json (es ! ?i)" by simp
    with len have "1 \<le> length (filter is_to_json es)" by (rule filter_nonempty)
    with once show ?thesis by simp
  qed
  have around: "map outline (take i es) = plan_before_snapshot overrides
      \<and> prefix (map outline (drop (Suc i) es)) (plan_after_snapshot overrides)"
    if "i < length es" "is_to_json (es ! i)" for i
  proof -
    from that at have "map outline es ! i = ?x" "i < length (map outline es)" by simp_all
    from prefix_split_unique(2,3) [OF pre to_json_not_before to_json_not_after this(2) this(1)]
    show ?thesis by (simp add: take_map drop_map)
  qed
  from once complete at around show ?thesis by blast
qed

section \<open>Runs of the example worlds\<close>

lemma quiet_run_result:
  "result (compose_indoors quiet_world ''out'' 0 True True example_overrides)
     = Inr \<lparr> height_offset = 0 \<rparr>"
  by code_simp

section \<open>Runs that write no snapshot\<close>

theorem snapshot_not_written_in_aborted_run:
  "result (compose_indoors quiet_world ''out'' 0 True True [])
     = Inl (KeyError ''solve_steps_large'')
   \<and> filter is_to_json (trace (compose_indoors quiet_world ''out'' 0 True True [])) = []
   \<and> result (compose_indoors small_object_world ''out'' 0 True True example_overrides)
     = Inl (NameError ''random'')
   \<and> filter is_to_json
       (trace (compose_indoors small_object_world ''out'' 0 True True example_overrides)) = []
   \<and> stage_names
       (trace (compose_indoors small_object_world ''out'' 0 True True example_overrides))
     = [''terrain'', ''sky_lighting'', ''solve_rooms'', ''solve_large'', ''add_bottle'',
        ''pose_cameras'']"
  by code_simp

theorem snapshot_written_once_near_end_witness:
  "result (compose_indoors quiet_world ''out'' 0 True True example_overrides)
     = Inr \<lparr> height_offset = 0 \<rparr>
   \<and> length (filter is_to_json
        (trace (compose_indoors quiet_world ''out'' 0 True True example_overrides))) = 1"
  using snapshot_written_once_near_end
    [OF refl, of quiet_world "''out''" 0 True True example_overrides] quiet_run_result
  by blast

section \<open>The order of the stages\<close>

theorem cameras_posed_before_medium_solve:
  "stage_names (trace (compose_indoors quiet_world ''out'' 0 True True example_overrides)) =
     [''terrain'', ''sky_lighting'', ''solve_rooms'', ''solve_large'', ''add_bottle'',
      ''pose_cameras'', ''animate_cameras'', ''populate_intermediate_pholders'',
      ''solve_medium'', ''solve_small'', ''populate_assets'', ''room_doors'', ''room_windows'',
      ''room_stairs'', ''skirting_floor'', ''skirting_ceiling'', ''room_walls'', ''room_pillars'',
      ''room_floors'', ''room_ceilings'', ''lights_off'', ''invisible_room_ceilings'',
      ''overhead_cam'', ''hide_other_rooms'', ''nature_backdrop'']
   \<and> stage_names (trace (compose_indoors quiet_world ''out'' 0 True True example_overrides)) ! 5
       = ''pose_cameras''
   \<and> stage_names (trace (compose_indoors quiet_world ''out'' 0 True True example_overrides)) ! 8
       = ''solve_medium''"
  by code_simp

text \<open>
  Claim C5, as amended. The stages of every run are called in the order of
  \<open>stage_order\<close>, and a run that returns has called them all: terrain, lighting, room
  solving, large objects, the bottle, camera posing and animation, placeholders, medium
  and small objects, assets, room decoration, and last the lights, the ceilings, the
  overhead camera, the other rooms and the backdrop. Camera posing and animation come
  after \<open>solve_large\<close> and before \<open>solve_medium\<close>; only the overhead camera comes after
  all solving.
\<close>

theorem stages_run_in_source_order:
  "prefix
     (stage_names
       (trace (compose_indoors w output_folder scene_seed add_bottle focus_on_bottle overrides)))
     stage_order
   \<and> (\<forall>x. result (compose_indoors w output_folder scene_seed add_bottle focus_on_bottle overrides)
            = Inr x \<longrightarrow>
          stage_names
            (trace (compose_indoors w output_folder scene_seed add_bottle focus_on_bottle overrides))
          = stage_order)"
  using followsD [OF compose_follows_stage_order] by (simp add: stage_names_def)

theorem stages_run_in_source_order_witness:
  "result (compose_indoors quiet_world ''out'' 0 True True example_overrides)
     = Inr \<lparr> height_offset = 0 \<rparr>
   \<and> stage_names (trace (compose_indoors quiet_world ''out'' 0 True True example_overrides))
     = stage_order"
  using stages_run_in_source_order [of quiet_world "''out''" 0 True True example_overrides]
    quiet_run_result
  by blast

section \<open>The validation pass\<close>

lemma in_bind:
  "a \<in> set (fst (bind m f hist)) \<longleftrightarrow>
     a \<in> set (fst (m hist))
     \<or> (\<exists>x. snd (m hist) = Inr x \<and> a \<in> set (fst (f x (hist @ fst (m hist)))))"
  by (auto simp: fst_bind split: sum.splits)

lemma bind3_leads_to:
  assumes m1: "emits_only (\<lambda>x. x \<noteq> a) m1" and m2: "emits_only (\<lambda>x. x \<noteq> a) m2"
    and m3: "\<And>hist. a \<in> set (fst (m3 hist)) \<Longrightarrow> b \<in> set (fst (m3 hist))"
    and rest: "\<And>x y z. emits_only (\<lambda>x. x \<noteq> a) (f x y z)"
    and a: "a \<in> set (fst (bind m1 (\<lambda>x. bind m2 (\<lambda>y. bind m3 (\<lambda>z. f x y z))) hist))"
  shows "b \<in> set (fst (bind m1 (\<lambda>x. bind m2 (\<lambda>y. bind m3 (\<lambda>z. f x y z))) hist))"
proof -
  let ?h1 = "hist @ fst (m1 hist)"
  from m1 have "a \<notin> set (fst (m1 hist))" by (auto simp: emits_only_def)
  with a obtain x where x: "snd (m1 hist) = Inr x"
    and a1: "a \<in> set (fst (bind m2 (\<lambda>y. bind m3 (\<lambda>z. f x y z)) ?h1))"
    unfolding in_bind [of a m1] by blast
  let ?h2 = "?h1 @ fst (m2 ?h1)"
  from m2 have "a \<notin> set (fst (m2 ?h1))" by (auto simp: emits_only_def)
  with a1 obtain y where y: "snd (m2 ?h1) = Inr y"
    and a2: "a \<in> set (fst (bind m3 (\<lambda>z. f x y z) ?h2))"
    unfolding in_bind [of a m2] by blast
  have "a \<notin> set (fst (f x y z h))" for z h
    using rest [of x y z] by (auto simp: emits_only_def)
  with a2 have "a \<in> set (fst (m3 ?h2))"
    unfolding in_bind [of a m3] by blast
  then have "b \<in> set (fst (m3 ?h2))" by (rule m3)
  then have "b \<in> set (fst (bind m3 (\<lambda>z. f x y z) ?h2))"
    unfolding in_bind [of b m3] by blast
  with y have "b \<in> set (fst (bind m2 (\<lambda>y. bind m3 (\<lambda>z. f x y z)) ?h1))"
    unfolding in_bind [of b m2] by blast
  with x show ?thesis
    unfolding in_bind [of b m1] by blast
qed

lemma bind3_stops:
  assumes "emits_only P m1" and "emits_only P m2" and "emits_only P m3" and "never_returns m3"
  shows "emits_only P (bind m1 (\<lambda>x. bind m2 (\<lambda>y. bind m3 (\<lambda>z. f x y z))))"
    and "never_returns (bind m1 (\<lambda>x. bind m2 (\<lambda>y. bind m3 (\<lambda>z. f x y z))))"
proof -
  have e3: "emits_only P (bind m3 (\<lambda>z. f x y z))" for x y
    using assms(3,4) by (rule emits_only_bind_never)
  have e2: "emits_only P (bind m2 (\<lambda>y. bind m3 (\<lambda>z. f x y z)))" for x
    by (rule emits_only_bind [OF assms(2) e3])
  show "emits_only P (bind m1 (\<lambda>x. bind m2 (\<lambda>y. bind m3 (\<lambda>z. f x y z))))"
    by (rule emits_only_bind [OF assms(1) e2])
  have n3: "never_returns (bind m3 (\<lambda>z. f x y z))" for x y
    using assms(4) by (rule never_returns_bind1)
  have n2: "never_returns (bind m2 (\<lambda>y. bind m3 (\<lambda>z. f x y z)))" for x
    by (rule never_returns_bind2 [OF n3])
  show "never_returns (bind m1 (\<lambda>x. bind m2 (\<lambda>y. bind m3 (\<lambda>z. f x y z))))"
    by (rule never_returns_bind2 [OF n2])
qed

lemma setup_scene_emits:
  "(\<And>out body. P (Stage 153 ''terrain'' out body))
     \<Longrightarrow> (\<And>out body. P (Stage 154 ''sky_lighting'' out body))
     \<Longrightarrow> emits_only P (setup_scene w p)"
  unfolding setup_scene_def
  by (rule emits_only_top_rules | simp)+

lemma build_catalog_emits:
  "P (Call 156 ''home_constraints'') \<Longrightarrow> P (Call 157 ''default_greedy_stages'')
     \<Longrightarrow> P (CheckAll 158 (default_greedy_stages (constants w)) (all_vars (constants w)))
     \<Longrightarrow> P (Call 160 ''restrict_solving'')
     \<Longrightarrow> emits_only P (build_catalog w)"
  unfolding build_catalog_def Let_def
  by (rule emits_only_top_rules | simp)+

lemma build_catalog_checks:
  "Call 157 ''default_greedy_stages'' \<in> set (fst (build_catalog w hist))
     \<Longrightarrow> CheckAll 158 (default_greedy_stages (constants w)) (all_vars (constants w))
           \<in> set (fst (build_catalog w hist))"
  by (auto simp: build_catalog_def bind_def call_def emit_def check_all_def Let_def ret_def
      split: if_splits prod.splits sum.splits)

lemma build_catalog_stops:
  "raises w 158 ''checks.check_all'' \<Longrightarrow> never_returns (build_catalog w)"
  by (auto simp: never_returns_def build_catalog_def bind_def call_def emit_def check_all_def
      Let_def ret_def split: if_splits prod.splits sum.splits)

lemma compose_checks_after_catalog:
  assumes "Call 157 ''default_greedy_stages''
     \<in> set (trace (compose_indoors w output_folder scene_seed add_bottle focus_on_bottle overrides))"
  shows "CheckAll 158 (default_greedy_stages (constants w)) (all_vars (constants w))
     \<in> set (trace (compose_indoors w output_folder scene_seed add_bottle focus_on_bottle overrides))"
  using assms unfolding trace_def run_def compose_indoors_def Let_def
  apply (rule bind3_leads_to [rotated 4])
     apply (rule emits_only_call, simp)
    apply (rule setup_scene_emits, simp, simp)
   apply (erule build_catalog_checks)
  apply (unfold restrict_roomtype_def
  solve_rooms_and_large_def place_bottle_and_cameras_def visibility_and_placeholders_def
  set_visibility_mode_def solve_medium_and_small_def decorate_rooms_def final_views_def
  topview_def Let_def)
  apply (rule emits_only_top_rules | simp add: room_types_def)+
  done


lemma compose_no_solving_after_failed_check:
  assumes "raises w 158 ''checks.check_all''"
  shows "emits_only (\<lambda>a. \<not> is_solving a)
      (compose_indoors w output_folder scene_seed add_bottle focus_on_bottle overrides)"
  unfolding compose_indoors_def Let_def
  apply (rule bind3_stops(1))
     apply (rule emits_only_call, simp)
    apply (rule setup_scene_emits, simp, simp)
   apply (rule build_catalog_emits, simp, simp, simp, simp)
  apply (rule build_catalog_stops [OF assms])
  done

lemma compose_aborts_after_failed_check:
  assumes "raises w 158 ''checks.check_all''"
  shows "never_returns
      (compose_indoors w output_folder scene_seed add_bottle focus_on_bottle overrides)"
  unfolding compose_indoors_def Let_def
  apply (rule never_returns_bind2)
  apply (rule never_returns_bind2)
  apply (rule never_returns_bind1)
  apply (rule build_catalog_stops [OF assms])
  done


lemma is_solving_outline:
  "is_solving a \<Longrightarrow>
     snd (outline a) \<in> {''Solver'', ''solve_rooms'', ''solve_large'', ''solve_medium'', ''solve_small''}"
  by (cases a) auto

lemma plan_split_catalog:
  "plan ov =
     [(138, ''pipeline.RandomStageExecutor''), (153, ''terrain''), (154, ''sky_lighting''),
      (156, ''home_constraints'')]
     @ (157, ''default_greedy_stages'')
     # ((158, ''checks.check_all'') # plan_solving ov @ (369, ''state.to_json'')
         # plan_after_snapshot ov)"
  by (simp add: plan_def plan_before_check_def)

lemma catalog_not_after:
  "(157, ''default_greedy_stages'')
     \<notin> set ((158, ''checks.check_all'') # plan_solving ov @ (369, ''state.to_json'')
         # plan_after_snapshot ov)"
  by (simp add: plan_defs)

lemma plan_head_not_solving:
  assumes "j < 6"
  shows "snd (plan ov ! j)
     \<notin> {''Solver'', ''solve_rooms'', ''solve_large'', ''solve_medium'', ''solve_small''}"
proof -
  from assms consider "j = 0" | "j = 1" | "j = 2" | "j = 3" | "j = 4" | "j = 5" by linarith
  then show ?thesis by cases (simp_all add: plan_def plan_before_check_def)
qed

lemma plan_at_check: "plan ov ! 5 = (158, ''checks.check_all'')"
  by (simp add: plan_def plan_before_check_def)

lemma plan_length: "6 < length (plan ov)"
  by (simp add: plan_defs)

lemma setup_scene_returns:
  assumes "\<not> raises w 143 ''Terrain''" and "\<not> raises w 149 ''terrain.coarse_terrain''"
    and "\<not> raises w 154 ''lighting.sky_lighting.add_lighting''"
  shows "\<exists>x. snd (setup_scene w p hist) = Inr x"
  using assms
  by (simp add: setup_scene_def run_stage_def add_coarse_terrain_def bind_def call_def ret_def)

lemma build_catalog_reached:
  assumes "\<not> raises w 156 ''home_constraints''"
  shows "Call 157 ''default_greedy_stages'' \<in> set (fst (build_catalog w hist))"
  using assms
  by (simp add: build_catalog_def bind_def call_def emit_def check_all_def Let_def ret_def
      split: prod.splits sum.splits)

lemma compose_builds_catalog:
  assumes "\<not> raises w 138 ''pipeline.RandomStageExecutor''"
    and "\<not> raises w 143 ''Terrain''" and "\<not> raises w 149 ''terrain.coarse_terrain''"
    and "\<not> raises w 154 ''lighting.sky_lighting.add_lighting''"
    and "\<not> raises w 156 ''home_constraints''"
  shows "Call 157 ''default_greedy_stages''
     \<in> set (trace (compose_indoors w output_folder scene_seed add_bottle focus_on_bottle overrides))"
proof -
  let ?a = "Call 157 ''default_greedy_stages''"
  let ?p = "\<lparr> scene_seed_of = scene_seed, output_folder_of = output_folder,
              params_of = overrides \<rparr>"
  have first: "snd (call w 138 ''pipeline.RandomStageExecutor'' hist) = Inr ()" for hist
    using assms(1) by (simp add: call_def)
  obtain t where second: "snd (setup_scene w ?p ([] @ fst (call w 138 ''pipeline.RandomStageExecutor'' []))) = Inr t"
    using setup_scene_returns [OF assms(2,3,4)] by blast
  have third: "?a \<in> set (fst (build_catalog w hist))" for hist
    by (rule build_catalog_reached [OF assms(5)])
  show ?thesis
    unfolding trace_def run_def compose_indoors_def Let_def
    apply (subst in_bind, rule disjI2, rule exI [of _ "()"], rule conjI, rule first)
    apply (subst in_bind, rule disjI2, rule exI [of _ t], rule conjI, rule second)
    apply (subst in_bind, rule disjI1, rule third)
    done
qed

text \<open>
  Claim C3. The validation pass is called exactly once, right after the catalog is
  built and before any solving: in every run in which the calls before line 157 return,
  and in every run that builds the catalog, the pass is the very next call after the
  catalog builder, on the catalog just built and the full variable list, and it is called
  exactly once; no run calls it more than once. When the pass is called, only the
  executor, the terrain and lighting stages, the constraint graph and the catalog builder
  have been called before. The solver is constructed and a solving stage is called only
  after the pass has been called and has not failed; a failing pass ends the run with no
  solving at all.
\<close>

theorem check_all_once_before_solving:
  assumes "es = trace (compose_indoors w output_folder scene_seed add_bottle focus_on_bottle overrides)"
  shows "length (filter is_check_all es) \<le> 1
    \<and> (\<forall>i<length es. es ! i = Call 157 ''default_greedy_stages'' \<longrightarrow>
          Suc i < length es
          \<and> es ! Suc i = CheckAll 158 (default_greedy_stages (constants w)) (all_vars (constants w))
          \<and> length (filter is_check_all es) = 1)
    \<and> (\<forall>i<length es. is_check_all (es ! i) \<longrightarrow>
          es ! i = CheckAll 158 (default_greedy_stages (constants w)) (all_vars (constants w))
          \<and> map outline (take i es) = plan_before_check)
    \<and> (\<forall>j<length es. is_solving (es ! j) \<longrightarrow>
          \<not> raises w 158 ''checks.check_all'' \<and> (\<exists>i<j. is_check_all (es ! i)))
    \<and> (raises w 158 ''checks.check_all'' \<longrightarrow>
          (\<forall>a\<in>set es. \<not> is_solving a)
          \<and> (\<forall>x. result (compose_indoors w output_folder scene_seed add_bottle focus_on_bottle
                      overrides) \<noteq> Inr x))
    \<and> (\<not> raises w 138 ''pipeline.RandomStageExecutor'' \<and> \<not> raises w 143 ''Terrain''
          \<and> \<not> raises w 149 ''terrain.coarse_terrain''
          \<and> \<not> raises w 154 ''lighting.sky_lighting.add_lighting''
          \<and> \<not> raises w 156 ''home_constraints'' \<longrightarrow>
          (\<exists>i. Suc i < length es \<and> es ! i = Call 157 ''default_greedy_stages''
             \<and> es ! Suc i = CheckAll 158 (default_greedy_stages (constants w)) (all_vars (constants w)))
          \<and> length (filter is_check_all es) = 1)"
proof -
  let ?C = "compose_indoors w output_folder scene_seed add_bottle focus_on_bottle overrides"
  let ?chk = "CheckAll 158 (default_greedy_stages (constants w)) (all_vars (constants w))"
  let ?x = "(158::nat, ''checks.check_all'')"
  let ?rest = "plan_solving overrides @ (369, ''state.to_json'') # plan_after_snapshot overrides"
  have pre_plan: "prefix (map outline es) (plan overrides)"
    using compose_outline_prefix [of w output_folder scene_seed add_bottle focus_on_bottle overrides]
    by (simp add: assms)
  then have pre: "prefix (map outline es) (plan_before_check @ ?x # ?rest)"
    by (simp add: plan_split_check)
  have shape: "\<And>a. a \<in> set es \<Longrightarrow> shaped w output_folder a"
    using emits_onlyD [OF compose_shaped] by (simp add: assms)
  have chk_at: "es ! i = ?chk \<and> map outline es ! i = ?x"
    if "is_check_all (es ! i)" "i < length es" for i
  proof -
    from that have "shaped w output_folder (es ! i)" by (simp add: shape)
    moreover from that have "snd (outline (es ! i)) = ''checks.check_all''"
      by (simp add: is_check_all_outline)
    ultimately have "es ! i = ?chk" by (rule shaped_check_all)
    with that show ?thesis by simp
  qed
  have chk_pos: "i = 5" if "i < length es" "is_check_all (es ! i)" for i
  proof -
    from that chk_at have "map outline es ! i = ?x" "i < length (map outline es)" by simp_all
    from prefix_split_unique(1) [OF pre check_not_before check_not_after this(2) this(1)]
    show ?thesis by (simp add: plan_before_check_def)
  qed
  have once: "length (filter is_check_all es) \<le> 1"
    by (rule filter_at_most_one) (rule chk_pos)
  have before: "map outline (take i es) = plan_before_check"
    if "i < length es" "is_check_all (es ! i)" for i
  proof -
    from that chk_at have "map outline es ! i = ?x" "i < length (map outline es)" by simp_all
    from prefix_split_unique(2) [OF pre check_not_before check_not_after this(2) this(1)]
    show ?thesis by (simp add: take_map)
  qed
  have adj: "Suc i < length es \<and> es ! Suc i = ?chk \<and> length (filter is_check_all es) = 1"
    if "i < length es" "es ! i = Call 157 ''default_greedy_stages''" for i
  proof -
    from that have at: "map outline es ! i = (157, ''default_greedy_stages'')"
      "i < length (map outline es)" by simp_all
    from pre_plan have "prefix (map outline es)
       ([(138, ''pipeline.RandomStageExecutor''), (153, ''terrain''), (154, ''sky_lighting''),
         (156, ''home_constraints'')]
        @ (157, ''default_greedy_stages'') # (?x # ?rest))"
      by (simp add: plan_split_catalog)
    from prefix_split_unique(1) [OF this _ catalog_not_after at(2) at(1)]
    have i: "i = 4" by simp
    from that have "Call 157 ''default_greedy_stages'' \<in> set (trace ?C)"
      unfolding assms by (metis nth_mem)
    then have "?chk \<in> set es"
      unfolding assms by (rule compose_checks_after_catalog)
    then obtain j where j: "j < length es" "es ! j = ?chk"
      by (auto simp: in_set_conv_nth)
    then have "is_check_all (es ! j)" by simp
    with j have j5: "j = 5" by (simp add: chk_pos)
    from j \<open>is_check_all (es ! j)\<close> have "1 \<le> length (filter is_check_all es)"
      by (intro filter_nonempty)
    with once i j j5 show ?thesis by simp
  qed
  have stop: "(\<forall>a\<in>set es. \<not> is_solving a) \<and> (\<forall>x. result ?C \<noteq> Inr x)"
    if "raises w 158 ''checks.check_all''"
    using emits_onlyD [OF compose_no_solving_after_failed_check [OF that]]
      never_returnsD [OF compose_aborts_after_failed_check [OF that]]
    by (auto simp: assms)
  have solving: "\<not> raises w 158 ''checks.check_all'' \<and> (\<exists>i<j. is_check_all (es ! i))"
    if "j < length es" "is_solving (es ! j)" for j
  proof -
    from that stop have ok: "\<not> raises w 158 ''checks.check_all''"
      by (metis nth_mem)
    from that have name: "snd (outline (es ! j)) \<in>
        {''Solver'', ''solve_rooms'', ''solve_large'', ''solve_medium'', ''solve_small''}"
      by (intro is_solving_outline)
    from pre_plan that(1) have "map outline es ! j = plan overrides ! j"
      by (intro prefix_nth) simp_all
    with that(1) name have "snd (plan overrides ! j) \<in>
        {''Solver'', ''solve_rooms'', ''solve_large'', ''solve_medium'', ''solve_small''}"
      by simp
    with plan_head_not_solving [of j overrides] have j: "5 < j" by (cases "j < 6") auto
    with that(1) have len: "5 < length es" by simp
    with pre_plan have "map outline es ! 5 = plan overrides ! 5"
      by (intro prefix_nth) simp_all
    with len have "snd (outline (es ! 5)) = ''checks.check_all''"
      by (simp add: plan_at_check)
    moreover from len have "shaped w output_folder (es ! 5)" by (simp add: shape)
    ultimately have "es ! 5 = ?chk" by (intro shaped_check_all)
    then have "is_check_all (es ! 5)" by simp
    with j ok show ?thesis by blast
  qed
  have built: "(\<exists>i. Suc i < length es \<and> es ! i = Call 157 ''default_greedy_stages''
        \<and> es ! Suc i = ?chk)
      \<and> length (filter is_check_all es) = 1"
    if "\<not> raises w 138 ''pipeline.RandomStageExecutor'' \<and> \<not> raises w 143 ''Terrain''
      \<and> \<not> raises w 149 ''terrain.coarse_terrain''
      \<and> \<not> raises w 154 ''lighting.sky_lighting.add_lighting''
      \<and> \<not> raises w 156 ''home_constraints''"
  proof -
    from that have "Call 157 ''default_greedy_stages'' \<in> set es"
      unfolding assms by (intro compose_builds_catalog) simp_all
    then obtain i where i: "i < length es" "es ! i = Call 157 ''default_greedy_stages''"
      by (auto simp: in_set_conv_nth)
    from adj [OF this] i(2) show ?thesis by blast
  qed
  have first_four: "length (filter is_check_all es) \<le> 1
    \<and> (\<forall>i<length es. es ! i = Call 157 ''default_greedy_stages'' \<longrightarrow>
          Suc i < length es \<and> es ! Suc i = ?chk \<and> length (filter is_check_all es) = 1)
    \<and> (\<forall>i<length es. is_check_all (es ! i) \<longrightarrow>
          es ! i = ?chk \<and> map outline (take i es) = plan_before_check)
    \<and> (\<forall>j<length es. is_solving (es ! j) \<longrightarrow>
          \<not> raises w 158 ''checks.check_all'' \<and> (\<exists>i<j. is_check_all (es ! i)))
    \<and> (raises w 158 ''checks.check_all'' \<longrightarrow>
          (\<forall>a\<in>set es. \<not> is_solving a) \<and> (\<forall>x. result ?C \<noteq> Inr x))"
  proof (intro conjI allI impI)
    show "length (filter is_check_all es) \<le> 1" by (rule once)
  qed (use adj chk_at before solving stop in \<open>blast+\<close>)
  from built have "\<not> raises w 138 ''pipeline.RandomStageExecutor'' \<and> \<not> raises w 143 ''Terrain''
      \<and> \<not> raises w 149 ''terrain.coarse_terrain''
      \<and> \<not> raises w 154 ''lighting.sky_lighting.add_lighting''
      \<and> \<not> raises w 156 ''home_constraints'' \<longrightarrow>
      (\<exists>i. Suc i < length es \<and> es ! i = Call 157 ''default_greedy_stages'' \<and> es ! Suc i = ?chk)
      \<and> length (filter is_check_all es) = 1"
    by (rule impI)
  with first_four show ?thesis by (intro conjI) (elim conjE, assumption)+
qed

lemma quiet_run_catalog_call:
  "4 < length (trace (compose_indoors quiet_world ''out'' 0 True True example_overrides))
   \<and> trace (compose_indoors quiet_world ''out'' 0 True True example_overrides) ! 4
     = Call 157 ''default_greedy_stages''"
  by code_simp

lemma quiet_world_calls_return:
  "\<not> raises quiet_world 138 ''pipeline.RandomStageExecutor'' \<and> \<not> raises quiet_world 143 ''Terrain''
   \<and> \<not> raises quiet_world 149 ''terrain.coarse_terrain''
   \<and> \<not> raises quiet_world 154 ''lighting.sky_lighting.add_lighting''
   \<and> \<not> raises quiet_world 156 ''home_constraints''"
  by (simp add: quiet_world_def)

theorem check_all_once_before_solving_witness:
  "trace (compose_indoors quiet_world ''out'' 0 True True example_overrides) ! 4
     = Call 157 ''default_greedy_stages''
   \<and> (\<not> raises quiet_world 138 ''pipeline.RandomStageExecutor'' \<and> \<not> raises quiet_world 143 ''Terrain''
      \<and> \<not> raises quiet_world 149 ''terrain.coarse_terrain''
      \<and> \<not> raises quiet_world 154 ''lighting.sky_lighting.add_lighting''
      \<and> \<not> raises quiet_world 156 ''home_constraints'')
   \<and> length (filter is_check_all
        (trace (compose_indoors quiet_world ''out'' 0 True True example_overrides))) = 1"
  using check_all_once_before_solving
    [OF refl, of quiet_world "''out''" 0 True True example_overrides] quiet_run_catalog_call
    quiet_world_calls_return
  by blast

section \<open>The unused parameter\<close>

lemma plan_split_add_bottle:
  "\<exists>A B. plan ov = A @ (240, ''add_bottle'') # B \<and> (\<forall>x\<in>set A. fst x < 240)"
proof -
  let ?P = "\<lambda>x::nat \<times> string. fst x < 240"
  have "dropWhile ?P (plan ov) \<noteq> []" and "hd (dropWhile ?P (plan ov)) = (240, ''add_bottle'')"
    by (simp_all add: plan_defs)
  then have "dropWhile ?P (plan ov) = (240, ''add_bottle'') # tl (dropWhile ?P (plan ov))"
    by (cases "dropWhile ?P (plan ov)") simp_all
  then have "plan ov = takeWhile ?P (plan ov) @ (240, ''add_bottle'') # tl (dropWhile ?P (plan ov))"
    by (metis takeWhile_dropWhile_id)
  moreover have "\<forall>x\<in>set (takeWhile ?P (plan ov)). fst x < 240"
    by (auto dest: set_takeWhileD)
  ultimately show ?thesis by blast
qed

lemma shaped_add_bottle:
  "shaped w folder a \<Longrightarrow> outline a = (240, ''add_bottle'')
     \<Longrightarrow> \<exists>out body. a = Stage 240 ''add_bottle'' out body"
  by (cases a) (auto simp: stage_order_def)

text \<open>
  Claim C9. The parameter \<open>add_bottle\<close> has no effect: two calls that differ only in it
  are the same program. The \<open>add_bottle\<close> stage is called at line 240 and is never
  skipped, neither by chance nor for a prerequisite, and every run that gets past line
  240 has called it.
\<close>

theorem add_bottle_parameter_unused:
  assumes "es = trace (compose_indoors w output_folder scene_seed a focus_on_bottle overrides)"
  shows "compose_indoors w output_folder scene_seed a focus_on_bottle overrides
       = compose_indoors w output_folder scene_seed b focus_on_bottle overrides
    \<and> (\<forall>l out body. Stage l ''add_bottle'' out body \<in> set es \<longrightarrow>
          l = 240 \<and> out \<noteq> SKIPPED_CHANCE \<and> out \<noteq> SKIPPED_PREREQ)
    \<and> (\<forall>j<length es. 240 < fst (outline (es ! j)) \<longrightarrow>
          (\<exists>i<j. \<exists>out body. es ! i = Stage 240 ''add_bottle'' out body))"
proof -
  have same: "compose_indoors w output_folder scene_seed a focus_on_bottle overrides
       = compose_indoors w output_folder scene_seed b focus_on_bottle overrides"
    by (simp add: compose_indoors_def)
  have shape: "\<And>x. x \<in> set es \<Longrightarrow> shaped w output_folder x"
    using emits_onlyD [OF compose_shaped] by (simp add: assms)
  have never_skipped: "l = 240 \<and> out \<noteq> SKIPPED_CHANCE \<and> out \<noteq> SKIPPED_PREREQ"
    if "Stage l ''add_bottle'' out body \<in> set es" for l out body
    using shape [OF that] by simp
  have pre_plan: "prefix (map outline es) (plan overrides)"
    using compose_outline_prefix [of w output_folder scene_seed a focus_on_bottle overrides]
    by (simp add: assms)
  have called: "\<exists>i<j. \<exists>out body. es ! i = Stage 240 ''add_bottle'' out body"
    if "j < length es" "240 < fst (outline (es ! j))" for j
  proof -
    from plan_split_add_bottle obtain A B
      where split: "plan overrides = A @ (240, ''add_bottle'') # B"
        and low: "\<forall>x\<in>set A. fst x < 240"
      by blast
    from pre_plan that(1) have at: "map outline es ! j = plan overrides ! j"
      by (intro prefix_nth) simp_all
    with that have high: "240 < fst (plan overrides ! j)" by simp
    have "length A < j"
    proof (rule ccontr)
      assume "\<not> length A < j"
      then consider "j < length A" | "j = length A" by linarith
      then show False
      proof cases
        case 1
        then have "plan overrides ! j \<in> set A" by (simp add: split nth_append)
        with low high show False by auto
      next
        case 2
        then have "plan overrides ! j = (240, ''add_bottle'')" by (simp add: split)
        with high show False by simp
      qed
    qed
    with that(1) have kl: "length A < length es" by simp
    with pre_plan have "map outline es ! length A = plan overrides ! length A"
      by (intro prefix_nth) simp_all
    with kl have "outline (es ! length A) = (240, ''add_bottle'')" by (simp add: split)
    moreover from kl have "shaped w output_folder (es ! length A)" by (simp add: shape)
    ultimately have "\<exists>out body. es ! length A = Stage 240 ''add_bottle'' out body"
      by (intro shaped_add_bottle)
    with \<open>length A < j\<close> show ?thesis by blast
  qed
  from same never_skipped called show ?thesis by blast
qed

theorem add_bottle_parameter_unused_witness:
  "compose_indoors quiet_world ''out'' 0 True True example_overrides
     = compose_indoors quiet_world ''out'' 0 False True example_overrides
   \<and> trace (compose_indoors quiet_world ''out'' 0 False True example_overrides) ! 15
     = Stage 240 ''add_bottle'' RAN []"
proof -
  have "trace (compose_indoors quiet_world ''out'' 0 False True example_overrides) ! 15
     = Stage 240 ''add_bottle'' RAN []"
    by code_simp
  with add_bottle_parameter_unused
    [OF refl, where w=quiet_world and output_folder="''out''" and scene_seed=0 and a=True
      and focus_on_bottle=True and overrides=example_overrides and b=False]
  show ?thesis by simp
qed

section \<open>The restricted room type\<close>

lemma compose_follows_choice:
  "follows choice_view
     (if truthy (dict_get overrides ''restrict_single_supported_roomtype'' (PyBool False))
      then [room_types ! (np_draw w mod length room_types)] else [])
     (compose_indoors w output_folder scene_seed add_bottle focus_on_bottle overrides)"
  apply (rule follows_eq)
   apply (unfold compose_defs)
   apply (rule follows_rules | simp add: room_types_def)+
  done

theorem room_type_depends_on_global_generator:
  "chosen_room_types (trace (compose_indoors quiet_world ''out'' 0 True True restricting_overrides))
     = [Semantics ''Kitchen'']
   \<and> chosen_room_types
       (trace (compose_indoors other_draw_world ''out'' 0 True True restricting_overrides))
     = [Semantics ''Bathroom'']"
  by code_simp

text \<open>
  Claim C6, as amended. The restricted room type is drawn by \<^verbatim>\<open>np.random.choice\<close> at
  line 164, outside every stage, from NumPy's process-wide generator: a run chooses at
  most one room type, a run that returns with the restriction switched on chooses
  exactly the one that the generator's draw selects from the five candidates, and so two
  such runs in which the generator yields the same draw choose the same room type,
  whatever their scene seeds are.
\<close>

theorem room_type_drawn_from_global_generator:
  assumes "truthy (dict_get overrides ''restrict_single_supported_roomtype'' (PyBool False))"
  shows "prefix
       (chosen_room_types
         (trace (compose_indoors w output_folder scene_seed add_bottle focus_on_bottle overrides)))
       [room_types ! (np_draw w mod length room_types)]
    \<and> (\<forall>x. result (compose_indoors w output_folder scene_seed add_bottle focus_on_bottle overrides)
             = Inr x \<longrightarrow>
          chosen_room_types
            (trace (compose_indoors w output_folder scene_seed add_bottle focus_on_bottle overrides))
          = [room_types ! (np_draw w mod length room_types)])
    \<and> (\<forall>x x'. np_draw w' = np_draw w
          \<and> result (compose_indoors w output_folder scene_seed add_bottle focus_on_bottle overrides)
             = Inr x
          \<and> result (compose_indoors w' output_folder' scene_seed' add_bottle' focus_on_bottle'
               overrides) = Inr x' \<longrightarrow>
          chosen_room_types
            (trace (compose_indoors w' output_folder' scene_seed' add_bottle' focus_on_bottle'
               overrides))
          = chosen_room_types
            (trace (compose_indoors w output_folder scene_seed add_bottle focus_on_bottle overrides)))"
  using followsD [OF compose_follows_choice [where w=w and overrides=overrides
        and output_folder=output_folder and scene_seed=scene_seed and add_bottle=add_bottle
        and focus_on_bottle=focus_on_bottle]]
    followsD(2) [OF compose_follows_choice [where w=w' and overrides=overrides
        and output_folder=output_folder' and scene_seed=scene_seed' and add_bottle=add_bottle'
        and focus_on_bottle=focus_on_bottle']]
    assms
  by (simp add: chosen_room_types_def)


lemma restricting_run_result:
  "result (compose_indoors quiet_world ''out'' 0 True True restricting_overrides)
     = Inr \<lparr> height_offset = 0 \<rparr>"
  by code_simp

theorem room_type_drawn_from_global_generator_witness:
  "truthy (dict_get restricting_overrides ''restrict_single_supported_roomtype'' (PyBool False))
   \<and> chosen_room_types
       (trace (compose_indoors quiet_world ''out'' 0 True True restricting_overrides))
     = [room_types ! (np_draw quiet_world mod length room_types)]"
proof -
  have flag: "truthy (dict_get restricting_overrides ''restrict_single_supported_roomtype''
      (PyBool False))"
    by (simp add: restricting_overrides_def dict_get_def)
  from room_type_drawn_from_global_generator [OF flag, where w=quiet_world
      and output_folder="''out''" and scene_seed=0 and add_bottle=True and focus_on_bottle=True]
    restricting_run_result flag
  show ?thesis by blast
qed

section \<open>The unbound names\<close>

lemma add_bottle_reaches_random:
  assumes "\<exists>spec\<in>set (map snd (objs s)).
      Semantics ''Table'' \<in> tags spec \<or> Semantics ''Surface'' \<in> tags spec"
  shows "run (add_bottle_to_scene (Some s)) = ([], Inl (NameError ''random''))"
proof -
  from assms have "filter (\<lambda>spec. Semantics ''Table'' \<in> tags spec \<or> Semantics ''Surface'' \<in> tags spec)
      (map snd (objs s)) \<noteq> []"
    by (simp add: filter_empty_conv)
  then show ?thesis
    by (simp add: add_bottle_to_scene_def state_objs_def run_def Let_def raise_def)
qed

lemma fallback_reaches_random:
  assumes "\<not> (focus \<and> bottle \<noteq> None)" and "\<exists>ob\<in>set nonroom_objs. dimensions_length_lt_1 ob"
  shows "run (select_object_to_follow (Some s) focus bottle nonroom_objs)
     = ([], Inl (NameError ''random''))"
proof -
  from assms(2) have "filter dimensions_length_lt_1 nonroom_objs \<noteq> []"
    by (simp add: filter_empty_conv)
  with assms(1) show ?thesis
    by (auto simp: select_object_to_follow_def run_def Let_def raise_def ret_def bind_def)
qed

lemma topview_never_returns:
  assumes "truthy (dict_get ov ''topview'' (PyBool False))"
  shows "never_returns (topview w ov)"
  using assms
  by (simp add: topview_def Let_def) (intro never_returns_bind2 never_returns_raise)

lemma topview_reaches_contexScene:
  assumes "truthy (dict_get ov ''topview'' (PyBool False))"
    and "\<not> raises w 422 ''rooms_split[group].objects''" and "\<not> raises w 428 ''read_co''"
  shows "result (topview w ov) = Inl (AttributeError ''bpy.contexScene'')"
  using assms
  by (simp add: topview_def Let_def result_def run_def bind_def call_def raise_def)

lemma compose_never_returns_with_topview:
  assumes "truthy (dict_get overrides ''topview'' (PyBool False))"
  shows "never_returns
     (compose_indoors w output_folder scene_seed add_bottle focus_on_bottle overrides)"
  unfolding compose_indoors_def Let_def
  by (intro never_returns_bind2 never_returns_bind1 [of "topview w overrides"]
      topview_never_returns assms)

lemma compose_never_tests_view:
  "emits_only (deep (\<lambda>a. \<not> calls ''points_inview'' a))
     (compose_indoors w output_folder scene_seed add_bottle focus_on_bottle overrides)"
  unfolding compose_defs stage_defs
  by (rule emits_only_rules | simp add: room_types_def)+

lemma compose_never_reaches_contexScreen:
  "result (compose_indoors w output_folder scene_seed add_bottle focus_on_bottle overrides)
     \<noteq> Inl (AttributeError ''bpy.contexScreen'')"
proof
  assume "result (compose_indoors w output_folder scene_seed add_bottle focus_on_bottle overrides)
     = Inl (AttributeError ''bpy.contexScreen'')"
  then have "AttributeError ''bpy.contexScreen'' \<in> - {AttributeError ''bpy.contexScreen''}"
    by (rule fails_inD [OF compose_fails_in, rotated -1]) simp_all
  then show False by simp
qed

theorem topview_stops_before_view_test:
  "result (compose_indoors quiet_world ''out'' 0 True True topview_overrides)
     = Inl (AttributeError ''bpy.contexScene'')
   \<and> filter (calls ''points_inview'')
       (all_actions (trace (compose_indoors quiet_world ''out'' 0 True True topview_overrides)))
     = []
   \<and> inview quiet_world 0"
  by code_simp

text \<open>
  Claim C7, as amended. When \<^verbatim>\<open>add_bottle_to_scene\<close> finds a surface it reaches the
  unbound name \<^verbatim>\<open>random\<close> and raises; so does the fallback choice of the object to
  follow when it has a candidate. With the top view switched on, \<^verbatim>\<open>compose_indoors\<close>
  never returns: the branch reaches \<^verbatim>\<open>bpy.contexScene\<close> at line 432, before the search
  for a camera distance and whatever is in view. So no run tests whether the points are
  in view, and none reaches \<^verbatim>\<open>bpy.contexScreen\<close>.
\<close>

theorem undefined_names_reached:
  "((\<exists>spec\<in>set (map snd (objs s)).
        Semantics ''Table'' \<in> tags spec \<or> Semantics ''Surface'' \<in> tags spec) \<longrightarrow>
      run (add_bottle_to_scene (Some s)) = ([], Inl (NameError ''random'')))
   \<and> (\<not> (focus \<and> bottle \<noteq> None) \<and> (\<exists>ob\<in>set nonroom_objs. dimensions_length_lt_1 ob) \<longrightarrow>
      run (select_object_to_follow (Some s) focus bottle nonroom_objs)
        = ([], Inl (NameError ''random'')))
   \<and> (truthy (dict_get overrides ''topview'' (PyBool False)) \<longrightarrow>
        (\<forall>x. result (compose_indoors w output_folder scene_seed add_bottle focus_on_bottle
                 overrides) \<noteq> Inr x)
        \<and> (\<forall>x. result (topview w overrides) \<noteq> Inr x)
        \<and> (\<not> raises w 422 ''rooms_split[group].objects'' \<and> \<not> raises w 428 ''read_co'' \<longrightarrow>
             result (topview w overrides) = Inl (AttributeError ''bpy.contexScene'')))
   \<and> result (compose_indoors w output_folder scene_seed add_bottle focus_on_bottle overrides)
        \<noteq> Inl (AttributeError ''bpy.contexScreen'')
   \<and> (\<forall>a\<in>set (all_actions
          (trace (compose_indoors w output_folder scene_seed add_bottle focus_on_bottle
             overrides))).
        \<not> calls ''points_inview'' a)"
proof (intro conjI impI allI ballI)
  fix a
  assume "a \<in> set (all_actions
      (trace (compose_indoors w output_folder scene_seed add_bottle focus_on_bottle overrides)))"
  then show "\<not> calls ''points_inview'' a"
    by (rule emits_only_deepD [OF compose_never_tests_view])
next
  assume "\<exists>spec\<in>set (map snd (objs s)).
      Semantics ''Table'' \<in> tags spec \<or> Semantics ''Surface'' \<in> tags spec"
  then show "run (add_bottle_to_scene (Some s)) = ([], Inl (NameError ''random''))"
    by (rule add_bottle_reaches_random)
next
  assume "\<not> (focus \<and> bottle \<noteq> None) \<and> (\<exists>ob\<in>set nonroom_objs. dimensions_length_lt_1 ob)"
  then show "run (select_object_to_follow (Some s) focus bottle nonroom_objs)
        = ([], Inl (NameError ''random''))"
    by (intro fallback_reaches_random) simp_all
next
  fix x
  assume "truthy (dict_get overrides ''topview'' (PyBool False))"
  then show "result (compose_indoors w output_folder scene_seed add_bottle focus_on_bottle
      overrides) \<noteq> Inr x"
    by (intro never_returnsD compose_never_returns_with_topview)
next
  fix x
  assume "truthy (dict_get overrides ''topview'' (PyBool False))"
  then show "result (topview w overrides) \<noteq> Inr x"
    by (intro never_returnsD topview_never_returns)
next
  assume "truthy (dict_get overrides ''topview'' (PyBool False))"
    and "\<not> raises w 422 ''rooms_split[group].objects'' \<and> \<not> raises w 428 ''read_co''"
  then show "result (topview w overrides) = Inl (AttributeError ''bpy.contexScene'')"
    by (intro topview_reaches_contexScene) simp_all
next
  show "result (compose_indoors w output_folder scene_seed add_bottle focus_on_bottle overrides)
        \<noteq> Inl (AttributeError ''bpy.contexScreen'')"
    by (rule compose_never_reaches_contexScreen)
qed

theorem undefined_names_reached_witness:
  "(\<exists>spec\<in>set (map snd (objs example_state)).
       Semantics ''Table'' \<in> tags spec \<or> Semantics ''Surface'' \<in> tags spec)
   \<and> run (add_bottle_to_scene (Some example_state)) = ([], Inl (NameError ''random''))
   \<and> truthy (dict_get topview_overrides ''topview'' (PyBool False))
   \<and> result (topview quiet_world topview_overrides) = Inl (AttributeError ''bpy.contexScene'')"
proof -
  have surface: "\<exists>spec\<in>set (map snd (objs example_state)).
       Semantics ''Table'' \<in> tags spec \<or> Semantics ''Surface'' \<in> tags spec"
    by (simp add: example_state_def)
  have flag: "truthy (dict_get topview_overrides ''topview'' (PyBool False))"
    by (simp add: topview_overrides_def dict_get_def)
  have quiet: "\<not> raises quiet_world 422 ''rooms_split[group].objects''"
    "\<not> raises quiet_world 428 ''read_co''"
    by (simp_all add: quiet_world_def)
  have all: "((\<exists>spec\<in>set (map snd (objs example_state)).
        Semantics ''Table'' \<in> tags spec \<or> Semantics ''Surface'' \<in> tags spec) \<longrightarrow>
      run (add_bottle_to_scene (Some example_state)) = ([], Inl (NameError ''random'')))
    \<and> (truthy (dict_get topview_overrides ''topview'' (PyBool False)) \<longrightarrow>
        (\<not> raises quiet_world 422 ''rooms_split[group].objects''
           \<and> \<not> raises quiet_world 428 ''read_co'' \<longrightarrow>
         result (topview quiet_world topview_overrides) = Inl (AttributeError ''bpy.contexScene'')))"
    using undefined_names_reached [where s=example_state and overrides=topview_overrides
      and w=quiet_world]
    by simp
  with surface flag quiet show ?thesis by simp
qed

section \<open>Required and optional overrides\<close>

lemma solve_medium_needs_steps:
  "map_of ov ''solve_steps_medium'' = None
     \<Longrightarrow> run (solve_medium w ov stages) = ([], Inl (KeyError ''solve_steps_medium''))"
  by (simp add: solve_medium_def dict_subscript_def run_def) (simp add: raise_def)

lemma solve_small_needs_steps:
  "map_of ov ''solve_steps_small'' = None
     \<Longrightarrow> run (solve_small w ov stages) = ([], Inl (KeyError ''solve_steps_small''))"
  by (simp add: solve_small_def dict_subscript_def run_def) (simp add: raise_def)

lemma for_each_raise:
  "for_each is (\<lambda>i. raise e) = (if is = [] then ret () else raise e)"
  by (cases "is") simp_all

lemma solve_large_needs_steps:
  assumes "map_of ov ''solve_steps_large'' = None" and "map_of stages ''on_floor'' = Some d"
    and "\<not> raises w 186 ''greedy.iterate_assignments''"
  shows "result (solve_large w ov stages) =
     (if 0 < n_assignments w ''on_floor'' then Inl (KeyError ''solve_steps_large'')
      else Inr (Some (solver_state w ''solve_large'')))"
  using assms
  by (simp add: solve_large_def dict_subscript_def for_each_raise result_def run_def)
    (simp add: bind_def call_def raise_def ret_def)

lemma compose_no_flag_key_error:
  assumes "k \<in> set flag_keys"
  shows "result (compose_indoors w output_folder scene_seed add_bottle focus_on_bottle overrides)
     \<noteq> Inl (KeyError k)"
proof
  assume "result (compose_indoors w output_folder scene_seed add_bottle focus_on_bottle overrides)
     = Inl (KeyError k)"
  then have "KeyError k \<in> {e. \<forall>k\<in>set flag_keys. e \<noteq> KeyError k}"
    by (rule fails_inD [OF compose_fails_in, rotated -1]) (simp_all add: flag_keys_def, auto)
  with assms show False by blast
qed

theorem large_steps_not_read_without_assignments:
  "map_of without_large_steps ''solve_steps_large'' = None
   \<and> trace (compose_indoors no_assignment_world ''out'' 0 True True without_large_steps) ! 9
     = Stage 199 ''solve_large'' RAN [Call 186 ''greedy.iterate_assignments'']
   \<and> result (compose_indoors no_assignment_world ''out'' 0 True True without_large_steps)
     = Inr \<lparr> height_offset = 0 \<rparr>"
  by code_simp

text \<open>
  Claim C10, as amended. \<^verbatim>\<open>solve_medium\<close> and \<^verbatim>\<open>solve_small\<close> subscript their step
  count first and raise a KeyError whenever they run without it. \<^verbatim>\<open>solve_large\<close>
  subscripts \<open>solve_steps_large\<close> once for each enumerated assignment: without the key it
  raises the KeyError when an assignment is enumerated and returns when none is. The six
  flags are read with defaults: no run raises a KeyError for one of them, and a flag
  that is left out reads as its default.
\<close>

theorem step_counts_required_flags_optional:
  "(map_of overrides ''solve_steps_medium'' = None \<longrightarrow>
      run (solve_medium w overrides stages) = ([], Inl (KeyError ''solve_steps_medium'')))
   \<and> (map_of overrides ''solve_steps_small'' = None \<longrightarrow>
      run (solve_small w overrides stages) = ([], Inl (KeyError ''solve_steps_small'')))
   \<and> (map_of overrides ''solve_steps_large'' = None \<and> map_of stages ''on_floor'' = Some d
        \<and> \<not> raises w 186 ''greedy.iterate_assignments'' \<longrightarrow>
      result (solve_large w overrides stages) =
        (if 0 < n_assignments w ''on_floor'' then Inl (KeyError ''solve_steps_large'')
         else Inr (Some (solver_state w ''solve_large''))))
   \<and> (\<forall>k\<in>set flag_keys.
        result (compose_indoors w output_folder scene_seed add_bottle focus_on_bottle overrides)
          \<noteq> Inl (KeyError k)
        \<and> (map_of overrides k = None \<longrightarrow> dict_get overrides k dflt = dflt))"
proof (intro conjI impI ballI)
  assume "map_of overrides ''solve_steps_medium'' = None"
  then show "run (solve_medium w overrides stages) = ([], Inl (KeyError ''solve_steps_medium''))"
    by (rule solve_medium_needs_steps)
next
  assume "map_of overrides ''solve_steps_small'' = None"
  then show "run (solve_small w overrides stages) = ([], Inl (KeyError ''solve_steps_small''))"
    by (rule solve_small_needs_steps)
next
  assume "map_of overrides ''solve_steps_large'' = None \<and> map_of stages ''on_floor'' = Some d
        \<and> \<not> raises w 186 ''greedy.iterate_assignments''"
  then show "result (solve_large w overrides stages) =
        (if 0 < n_assignments w ''on_floor'' then Inl (KeyError ''solve_steps_large'')
         else Inr (Some (solver_state w ''solve_large'')))"
    by (intro solve_large_needs_steps) simp_all
next
  fix k
  assume "k \<in> set flag_keys"
  then show "result (compose_indoors w output_folder scene_seed add_bottle focus_on_bottle
      overrides) \<noteq> Inl (KeyError k)"
    by (rule compose_no_flag_key_error)
next
  fix k
  assume "map_of overrides k = None"
  then show "dict_get overrides k dflt = dflt"
    by (simp add: dict_get_def)
qed

theorem step_counts_required_flags_optional_witness:
  "map_of ([] :: (string, pyval) dict) ''solve_steps_medium'' = None
   \<and> run (solve_medium quiet_world [] (default_greedy_stages example_cu))
     = ([], Inl (KeyError ''solve_steps_medium''))
   \<and> ''topview'' \<in> set flag_keys
   \<and> dict_get ([] :: (string, pyval) dict) ''topview'' (PyBool False) = PyBool False"
  using step_counts_required_flags_optional
    [where overrides="[]" and w=quiet_world and stages="default_greedy_stages example_cu"
      and dflt="PyBool False"]
  by (simp add: flag_keys_def)

section \<open>The abort flags\<close>

lemma compose_abort_policy:
  "emits_only (deep (abort_policy overrides))
     (compose_indoors w output_folder scene_seed add_bottle focus_on_bottle overrides)"
  unfolding compose_defs stage_defs
  by (rule emits_only_rules | simp add: room_types_def)+

lemma solve_medium_never_unsatisfied:
  "result (solve_medium w overrides stages) \<noteq> Inl (UnsatisfiedError k i)"
proof
  assume "result (solve_medium w overrides stages) = Inl (UnsatisfiedError k i)"
  moreover have "fails_in (- range (\<lambda>(k, i). UnsatisfiedError k i)) (solve_medium w overrides stages)"
    unfolding solve_medium_def solve_stage_def
    by (rule fails_in_rules | simp | force)+
  ultimately have "UnsatisfiedError k i \<in> - range (\<lambda>(k, i). UnsatisfiedError k i)"
    by (rule fails_inD [rotated])
  then show False by auto
qed

lemma solve_small_never_unsatisfied:
  "result (solve_small w overrides stages) \<noteq> Inl (UnsatisfiedError k i)"
proof
  assume "result (solve_small w overrides stages) = Inl (UnsatisfiedError k i)"
  moreover have "fails_in (- range (\<lambda>(k, i). UnsatisfiedError k i)) (solve_small w overrides stages)"
    unfolding solve_small_def solve_stage_def
    by (rule fails_in_rules | simp | force)+
  ultimately have "UnsatisfiedError k i \<in> - range (\<lambda>(k, i). UnsatisfiedError k i)"
    by (rule fails_inD [rotated])
  then show False by auto
qed

lemma for_each_first_failure:
  assumes "\<And>j hist. j \<in> set xs \<Longrightarrow> snd (body j hist) = Inr ()"
    and "\<And>hist. snd (body i hist) = Inl e"
  shows "snd (for_each (xs @ i # ys) body hist) = Inl e"
  using assms(1) by (induction xs arbitrary: hist) (simp_all add: snd_bind assms(2))

lemma upt_split_at: "i < n \<Longrightarrow> [0..<n] = [0..<i] @ i # [Suc i..<n]"
  using upt_add_eq_append [of 0 i "n - i"] by (simp add: upt_conv_Cons)

lemma solve_large_unsatisfied:
  assumes flag: "truthy (dict_get overrides ''abort_unsatisfied_large'' (PyBool False))"
    and dom: "map_of stages ''on_floor'' = Some d"
    and steps: "map_of overrides ''solve_steps_large'' = Some n"
    and enum: "\<not> raises w 186 ''greedy.iterate_assignments''"
    and i: "i < n_assignments w ''on_floor''"
    and bad: "placement w ''on_floor'' i = NoFeasiblePlacement"
    and good: "\<forall>j<i. placement w ''on_floor'' j = Placed"
  shows "result (solve_large w overrides stages) = Inl (UnsatisfiedError ''on_floor'' i)"
proof -
  let ?body = "\<lambda>i. bind (dict_subscript stages ''on_floor'') (\<lambda>on_floor.
             bind (dict_subscript overrides ''solve_steps_large'') (\<lambda>n_steps.
             solve_objects w 190 ''on_floor'' i n_steps
               (truthy (dict_get overrides ''abort_unsatisfied_large'' (PyBool False)))))"
  have body: "snd (?body j hist) =
      (case placement w ''on_floor'' j of
         Crash \<Rightarrow> Inl (ExternalError 190 ''solver.solve_objects'')
       | NoFeasiblePlacement \<Rightarrow> Inl (UnsatisfiedError ''on_floor'' j)
       | Placed \<Rightarrow> Inr ())" for j hist
    using flag dom steps
    by (simp add: snd_bind dict_subscript_def ret_def solve_objects_def split: solve_result.splits)
  have "snd (for_each ([0..<i] @ i # [Suc i..<n_assignments w ''on_floor'']) ?body hist)
      = Inl (UnsatisfiedError ''on_floor'' i)" for hist
    by (rule for_each_first_failure) (simp_all add: body good bad)
  then have loop: "snd (for_each [0..<n_assignments w ''on_floor''] ?body hist)
      = Inl (UnsatisfiedError ''on_floor'' i)" for hist
    using upt_split_at [OF i] by simp
  have first: "snd (dict_subscript stages ''on_floor'' hist) = Inr d" for hist
    using dom by (simp add: dict_subscript_def ret_def)
  show ?thesis
    unfolding result_def run_def solve_large_def
    using enum by (simp add: snd_bind first call_def loop)
qed

theorem medium_abort_flag_ignored:
  "map_of abort_everywhere_overrides ''abort_unsatisfied_medium'' = Some (PyBool True)
   \<and> placement infeasible_world ''on_wall'' 0 = NoFeasiblePlacement
   \<and> trace (solve_medium infeasible_world abort_everywhere_overrides
        (default_greedy_stages example_cu))
     = [Call 328 ''greedy.iterate_assignments'',
        SolveObjects 329 ''on_wall'' 0 (PyInt 200) False,
        Call 330 ''greedy.iterate_assignments'',
        SolveObjects 331 ''on_ceiling'' 0 (PyInt 200) False,
        Call 332 ''greedy.iterate_assignments'',
        SolveObjects 333 ''side_obj'' 0 (PyInt 200) False]
   \<and> result (solve_large infeasible_world abort_everywhere_overrides
        (default_greedy_stages example_cu))
     = Inl (UnsatisfiedError ''on_floor'' 0)"
  by code_simp

text \<open>
  Claim C4, as amended. Only the large level has a configured abort flag:
  \<^verbatim>\<open>solve_large\<close> passes \<open>abort_unsatisfied_large\<close>, read with the default \<open>False\<close>, to
  every \<^verbatim>\<open>solve_objects\<close> call on the \<open>on_floor\<close> stage. The calls of \<^verbatim>\<open>solve_medium\<close>
  and \<^verbatim>\<open>solve_small\<close> pass no flag, so it is \<open>False\<close> there whatever the overrides say,
  and these two functions never fail with an Unsatisfied error. At the large level, when
  the flag is set, the first \<open>on_floor\<close> assignment for which the solver finds no
  feasible placement makes \<^verbatim>\<open>solve_large\<close> fail with an Unsatisfied error.
\<close>

theorem abort_flag_passed_only_for_large:
  "(\<forall>l k i n ab.
      SolveObjects l k i n ab
        \<in> set (all_actions
             (trace (compose_indoors w output_folder scene_seed add_bottle focus_on_bottle
                overrides))) \<longrightarrow>
      ab = (k = ''on_floor''
            \<and> truthy (dict_get overrides ''abort_unsatisfied_large'' (PyBool False))))
   \<and> (\<forall>k i. result (solve_medium w overrides stages) \<noteq> Inl (UnsatisfiedError k i))
   \<and> (\<forall>k i. result (solve_small w overrides stages) \<noteq> Inl (UnsatisfiedError k i))
   \<and> (\<forall>i. truthy (dict_get overrides ''abort_unsatisfied_large'' (PyBool False))
          \<and> map_of stages ''on_floor'' \<noteq> None
          \<and> map_of overrides ''solve_steps_large'' \<noteq> None
          \<and> \<not> raises w 186 ''greedy.iterate_assignments''
          \<and> i < n_assignments w ''on_floor''
          \<and> placement w ''on_floor'' i = NoFeasiblePlacement
          \<and> (\<forall>j<i. placement w ''on_floor'' j = Placed) \<longrightarrow>
          result (solve_large w overrides stages) = Inl (UnsatisfiedError ''on_floor'' i))"
proof (intro conjI allI impI)
  fix l k i n ab
  assume "SolveObjects l k i n ab
        \<in> set (all_actions
             (trace (compose_indoors w output_folder scene_seed add_bottle focus_on_bottle
                overrides)))"
  then have "abort_policy overrides (SolveObjects l k i n ab)"
    by (rule emits_only_deepD [OF compose_abort_policy])
  then show "ab = (k = ''on_floor''
            \<and> truthy (dict_get overrides ''abort_unsatisfied_large'' (PyBool False)))"
    by simp
next
  fix k i
  show "result (solve_medium w overrides stages) \<noteq> Inl (UnsatisfiedError k i)"
    by (rule solve_medium_never_unsatisfied)
next
  fix k i
  show "result (solve_small w overrides stages) \<noteq> Inl (UnsatisfiedError k i)"
    by (rule solve_small_never_unsatisfied)
next
  fix i
  assume h: "truthy (dict_get overrides ''abort_unsatisfied_large'' (PyBool False))
          \<and> map_of stages ''on_floor'' \<noteq> None
          \<and> map_of overrides ''solve_steps_large'' \<noteq> None
          \<and> \<not> raises w 186 ''greedy.iterate_assignments''
          \<and> i < n_assignments w ''on_floor''
          \<and> placement w ''on_floor'' i = NoFeasiblePlacement
          \<and> (\<forall>j<i. placement w ''on_floor'' j = Placed)"
  then obtain d n where "map_of stages ''on_floor'' = Some d"
    and "map_of overrides ''solve_steps_large'' = Some n"
    by auto
  with h show "result (solve_large w overrides stages) = Inl (UnsatisfiedError ''on_floor'' i)"
    by (intro solve_large_unsatisfied [where d=d and n=n]) simp_all
qed

lemma quiet_run_solves_wall:
  "SolveObjects 329 ''on_wall'' 0 (PyInt 200) False
     \<in> set (all_actions
          (trace (compose_indoors quiet_world ''out'' 0 True True abort_everywhere_overrides)))"
  by code_simp

lemma infeasible_large_run:
  "truthy (dict_get abort_everywhere_overrides ''abort_unsatisfied_large'' (PyBool False))
   \<and> map_of (default_greedy_stages example_cu) ''on_floor'' \<noteq> None
   \<and> map_of abort_everywhere_overrides ''solve_steps_large'' \<noteq> None
   \<and> \<not> raises infeasible_world 186 ''greedy.iterate_assignments''
   \<and> 0 < n_assignments infeasible_world ''on_floor''
   \<and> placement infeasible_world ''on_floor'' 0 = NoFeasiblePlacement"
  by code_simp

theorem abort_flag_passed_only_for_large_witness:
  "(SolveObjects 329 ''on_wall'' 0 (PyInt 200) False
      \<in> set (all_actions
           (trace (compose_indoors quiet_world ''out'' 0 True True abort_everywhere_overrides)))
    \<and> False = (''on_wall'' = ''on_floor''
         \<and> truthy (dict_get abort_everywhere_overrides ''abort_unsatisfied_large'' (PyBool False))))
   \<and> (placement infeasible_world ''on_floor'' 0 = NoFeasiblePlacement
    \<and> result (solve_large infeasible_world abort_everywhere_overrides
          (default_greedy_stages example_cu))
       = Inl (UnsatisfiedError ''on_floor'' 0))"
proof (rule conjI)
  show "SolveObjects 329 ''on_wall'' 0 (PyInt 200) False
      \<in> set (all_actions
           (trace (compose_indoors quiet_world ''out'' 0 True True abort_everywhere_overrides)))
    \<and> False = (''on_wall'' = ''on_floor''
         \<and> truthy (dict_get abort_everywhere_overrides ''abort_unsatisfied_large'' (PyBool False)))"
    using abort_flag_passed_only_for_large
      [where w=quiet_world and output_folder="''out''" and scene_seed=0 and add_bottle=True
        and focus_on_bottle=True and overrides=abort_everywhere_overrides]
      quiet_run_solves_wall
    by simp
  show "placement infeasible_world ''on_floor'' 0 = NoFeasiblePlacement
    \<and> result (solve_large infeasible_world abort_everywhere_overrides
          (default_greedy_stages example_cu))
       = Inl (UnsatisfiedError ''on_floor'' 0)"
    using abort_flag_passed_only_for_large
      [where w=infeasible_world and overrides=abort_everywhere_overrides
        and stages="default_greedy_stages example_cu",
        THEN conjunct2, THEN conjunct2, THEN conjunct2, THEN spec, where x=0]
      infeasible_large_run
    by simp
qed

end
